theory Spec2Isabelle
  imports Main
begin

section \<open>Data model\<close>

text \<open>
  The program lists the pod sandboxes and the containers of a CRI runtime, merges both
  listings into one set of pods and then fetches the status of every entity of every pod.
  Go values are modelled as follows: a struct is a record, a pointer that may be nil is an
  option, a Go map is a partial function, a slice is a list (the nil slice is the empty
  list), and a Go function returning \<open>(value, error)\<close> returns a pair whose second
  component is \<open>None\<close> for the nil error. A function that can panic returns a sum
  whose left summand is the panic: the call does not return, and what follows it in the
  source does not run.
\<close>

text \<open>A Go error value, by its message; and the one panic the program can run into.\<close>

datatype error = Error string

datatype panic = NilPointerDereference

subsection \<open>Messages of the CRI protocol (package runtimeapi)\<close>

datatype PodSandboxState = SANDBOX_READY | SANDBOX_NOTREADY

datatype ContainerState =
  CONTAINER_CREATED | CONTAINER_RUNNING | CONTAINER_EXITED | CONTAINER_UNKNOWN

record PodSandboxMetadata =
  Name :: string
  Uid :: string
  Namespace :: string
  Attempt :: nat

record PodSandbox =
  Id :: string
  Metadata :: "PodSandboxMetadata option"
  State :: PodSandboxState
  Labels :: "string \<rightharpoonup> string"

record ContainerMetadata =
  Name :: string
  Attempt :: nat

record Container =
  Id :: string
  PodSandboxId :: string
  Metadata :: "ContainerMetadata option"
  State :: ContainerState
  Labels :: "string \<rightharpoonup> string"

record PodSandboxFilter =
  Id :: string
  State :: "PodSandboxState option"
  LabelSelector :: "string \<rightharpoonup> string"

record ContainerFilter =
  Id :: string
  State :: "ContainerState option"
  PodSandboxId :: string
  LabelSelector :: "string \<rightharpoonup> string"

record PodSandboxStatus =
  Id :: string
  State :: PodSandboxState

record ContainerStatus =
  Id :: string
  State :: ContainerState
  Message :: string
  Reason :: string

fun PodSandboxState_String :: "PodSandboxState \<Rightarrow> string" where
  "PodSandboxState_String SANDBOX_READY = ''SANDBOX_READY''"
| "PodSandboxState_String SANDBOX_NOTREADY = ''SANDBOX_NOTREADY''"

fun ContainerState_String :: "ContainerState \<Rightarrow> string" where
  "ContainerState_String CONTAINER_CREATED = ''CONTAINER_CREATED''"
| "ContainerState_String CONTAINER_RUNNING = ''CONTAINER_RUNNING''"
| "ContainerState_String CONTAINER_EXITED = ''CONTAINER_EXITED''"
| "ContainerState_String CONTAINER_UNKNOWN = ''CONTAINER_UNKNOWN''"

subsection \<open>The program's own types\<close>

text \<open>\<open>Pod\<close> of runtime-service.go and \<open>labeledContainerInfo\<close> of helper.go.\<close>

record Pod =
  ID :: string
  Name :: string
  Namespace :: string

record labeledContainerInfo =
  ContainerName :: string
  PodName :: string
  PodNamespace :: string
  PodUID :: string

definition KubernetesPodNameLabel :: string where
  "KubernetesPodNameLabel = ''io.kubernetes.pod.name''"

definition KubernetesPodNamespaceLabel :: string where
  "KubernetesPodNamespaceLabel = ''io.kubernetes.pod.namespace''"

definition KubernetesPodUIDLabel :: string where
  "KubernetesPodUIDLabel = ''io.kubernetes.pod.uid''"

definition KubernetesContainerNameLabel :: string where
  "KubernetesContainerNameLabel = ''io.kubernetes.container.name''"

definition unixProtocol :: string where
  "unixProtocol = ''unix''"

definition maxMsgSize :: nat where
  "maxMsgSize = 1024 * 1024 * 16"

section \<open>The environment: the runtime behind the client, and klog\<close>

text \<open>
  The four RPCs the program issues. The runtime is outside the program, so it is a
  parameter: a state of type \<open>'s\<close> and, for every RPC, a function from the request and
  the state to the answer and the next state. Nothing is assumed about it: it may answer
  the same request differently each time. An RPC that times out is an RPC that answers
  with an error. The \<open>Status\<close> field of a status response is a pointer, so an answer
  without error is \<open>Inr (Some status)\<close>, or \<open>Inr None\<close> when the response carries no
  status. The elements of a listing are never nil (the decoder allocates each one), and
  neither is the response of an RPC that returned no error.
\<close>

datatype request =
  ListPodSandboxRequest PodSandboxFilter
| ListContainersRequest ContainerFilter
| ContainerStatusRequest string
| PodSandboxStatusRequest string

record 's RuntimeServiceClient =
  ListPodSandbox :: "PodSandboxFilter \<Rightarrow> 's \<Rightarrow> (error + PodSandbox list) \<times> 's"
  ListContainers :: "ContainerFilter \<Rightarrow> 's \<Rightarrow> (error + Container list) \<times> 's"
  ContainerStatusRPC :: "string \<Rightarrow> 's \<Rightarrow> (error + ContainerStatus option) \<times> 's"
  PodSandboxStatusRPC :: "string \<Rightarrow> 's \<Rightarrow> (error + PodSandboxStatus option) \<times> 's"

record 's runtimeService =
  Client :: "'s RuntimeServiceClient"
  Timeout :: int

text \<open>
  A klog call is recorded with its severity, its format string and its arguments; the
  formatting itself is not modelled. \<open>klog.V(n)\<close> prints when the verbosity of the
  process is at least \<open>n\<close>.
\<close>

datatype severity = INFO | ERROR

datatype klog_arg =
  ArgStr string
| ArgErr error
| ArgSandbox PodSandbox
| ArgContainer Container
| ArgSandboxFilter PodSandboxFilter
| ArgContainerFilter ContainerFilter
| ArgSandboxStatus PodSandboxStatus
| ArgContainerStatus ContainerStatus

type_synonym klog_entry = "severity \<times> string \<times> klog_arg list"

text \<open>
  The world a call runs in: the state of the runtime, the RPCs issued so far (each with
  the error it came back with, \<open>None\<close> for success), the verbosity and the log.
\<close>

record 's world =
  runtime :: 's
  calls :: "(request \<times> error option) list"
  verbosity :: nat
  klog :: "klog_entry list"

definition klog_Infof :: "string \<Rightarrow> klog_arg list \<Rightarrow> 's world \<Rightarrow> 's world" where
  "klog_Infof format args w = w\<lparr>klog := klog w @ [(INFO, format, args)]\<rparr>"

definition klog_Errorf :: "string \<Rightarrow> klog_arg list \<Rightarrow> 's world \<Rightarrow> 's world" where
  "klog_Errorf format args w = w\<lparr>klog := klog w @ [(ERROR, format, args)]\<rparr>"

definition klog_V_Infof :: "nat \<Rightarrow> string \<Rightarrow> klog_arg list \<Rightarrow> 's world \<Rightarrow> 's world" where
  "klog_V_Infof level format args w =
     (if level \<le> verbosity w then klog_Infof format args w else w)"

definition error_of :: "error + 'a \<Rightarrow> error option" where
  "error_of r = (case r of Inl e \<Rightarrow> Some e | Inr _ \<Rightarrow> None)"

definition rpc ::
  "('s \<Rightarrow> (error + 'a) \<times> 's) \<Rightarrow> request \<Rightarrow> 's world \<Rightarrow> (error + 'a) \<times> 's world" where
  "rpc call req w =
     (case call (runtime w) of
        (resp, s') \<Rightarrow> (resp, w\<lparr>runtime := s', calls := calls w @ [(req, error_of resp)]\<rparr>))"

section \<open>helper.go\<close>

definition getStringValueFromLabel ::
  "(string \<rightharpoonup> string) \<Rightarrow> string \<Rightarrow> 's world \<Rightarrow> string \<times> 's world" where
  "getStringValueFromLabel labels label w =
     (case labels label of
        Some v \<Rightarrow> (v, w)
      | None \<Rightarrow>
          ('''',
           klog_Infof ''Container doesn't have label %s, it may be an old or invalid container''
             [ArgStr label] w))"

text \<open>The fields of the struct literal are evaluated in the order they are written.\<close>

definition getContainerInfoFromLabels ::
  "(string \<rightharpoonup> string) \<Rightarrow> 's world \<Rightarrow> labeledContainerInfo \<times> 's world" where
  "getContainerInfoFromLabels labels w =
     (case getStringValueFromLabel labels KubernetesPodNameLabel w of (podName, w1) \<Rightarrow>
      case getStringValueFromLabel labels KubernetesPodNamespaceLabel w1 of (podNamespace, w2) \<Rightarrow>
      case getStringValueFromLabel labels KubernetesPodUIDLabel w2 of (podUID, w3) \<Rightarrow>
      case getStringValueFromLabel labels KubernetesContainerNameLabel w3 of (containerName, w4) \<Rightarrow>
        (\<lparr>ContainerName = containerName, PodName = podName,
          PodNamespace = podNamespace, PodUID = podUID\<rparr>, w4))"

section \<open>runtime-service.go: the client facade\<close>

text \<open>
  \<open>url.Parse\<close>, \<open>net.DialTimeout\<close>, \<open>grpc.DialContext\<close> and
  \<open>runtimeapi.NewRuntimeServiceClient\<close> are library functions: they are parameters.
\<close>

record URL =
  Scheme :: string
  Host :: string
  Path :: string

record ('conn, 'cc, 's) library =
  url_Parse :: "string \<Rightarrow> error + URL"
  net_DialTimeout :: "string \<Rightarrow> string \<Rightarrow> int \<Rightarrow> error + 'conn"
  grpc_DialContext ::
    "int \<Rightarrow> string \<Rightarrow> (string \<Rightarrow> int \<Rightarrow> error + 'conn) option \<Rightarrow> nat \<Rightarrow> error + 'cc"
  NewRuntimeServiceClient :: "'cc \<Rightarrow> 's RuntimeServiceClient"

definition dial :: "('conn, 'cc, 's) library \<Rightarrow> string \<Rightarrow> int \<Rightarrow> error + 'conn" where
  "dial lib addr timeout = net_DialTimeout lib unixProtocol addr timeout"

definition getAddressAndDialer ::
  "('conn, 'cc, 's) library \<Rightarrow> string \<Rightarrow>
     string \<times> (string \<Rightarrow> int \<Rightarrow> error + 'conn) option \<times> error option" where
  "getAddressAndDialer lib endpoint =
     (case url_Parse lib endpoint of
        Inl err \<Rightarrow> ('''', None, Some err)
      | Inr u \<Rightarrow>
          if Scheme u \<noteq> unixProtocol
          then ('''', None, Some (Error ''only support unix socket endpoint''))
          else (Path u, Some (dial lib), None))"

definition newRuntimeServiceClient ::
  "('conn, 'cc, 's) library \<Rightarrow> string \<Rightarrow> int \<Rightarrow> 's world \<Rightarrow>
     ('s runtimeService option \<times> error option) \<times> 's world" where
  "newRuntimeServiceClient lib endpoint connectionTimeout w =
     (let w0 = klog_V_Infof 5 ''Connecting to runtime service %s'' [ArgStr endpoint] w in
      case getAddressAndDialer lib endpoint of
        (addr, dailer, Some err) \<Rightarrow> ((None, Some err), w0)
      | (addr, dailer, None) \<Rightarrow>
          (case grpc_DialContext lib connectionTimeout addr dailer maxMsgSize of
             Inl err \<Rightarrow>
               ((None, Some err),
                klog_Errorf ''Connect remote runtime %s failed: %v'' [ArgStr addr, ArgErr err] w0)
           | Inr conn \<Rightarrow>
               ((Some \<lparr>Client = NewRuntimeServiceClient lib conn, Timeout = connectionTimeout\<rparr>,
                 None), w0)))"

definition getKubeletSandboxs ::
  "'s runtimeService \<Rightarrow> string \<Rightarrow> bool \<Rightarrow> 's world \<Rightarrow>
     (PodSandbox list \<times> error option) \<times> 's world" where
  "getKubeletSandboxs rs podUID all w =
     (let flt0 = \<lparr>PodSandboxFilter.Id = '''', PodSandboxFilter.State = None,
                  PodSandboxFilter.LabelSelector = Map.empty\<rparr>;
          flt1 = (if podUID \<noteq> ''''
                  then flt0\<lparr>PodSandboxFilter.LabelSelector := [KubernetesPodUIDLabel \<mapsto> podUID]\<rparr>
                  else flt0);
          flt = (if \<not> all then flt1\<lparr>PodSandboxFilter.State := Some SANDBOX_READY\<rparr> else flt1)
      in case rpc (ListPodSandbox (Client rs) flt) (ListPodSandboxRequest flt) w of
           (Inl err, w1) \<Rightarrow>
             (([], Some err),
              klog_Errorf ''ListPodSandbox with filter %+v from runtime service failed: %v''
                [ArgSandboxFilter flt, ArgErr err] w1)
         | (Inr items, w1) \<Rightarrow> ((items, None), w1))"

definition getKubeletContainers ::
  "'s runtimeService \<Rightarrow> string \<Rightarrow> bool \<Rightarrow> 's world \<Rightarrow>
     (Container list \<times> error option) \<times> 's world" where
  "getKubeletContainers rs podUID all w =
     (let flt0 = \<lparr>ContainerFilter.Id = '''', ContainerFilter.State = None,
                  ContainerFilter.PodSandboxId = '''',
                  ContainerFilter.LabelSelector = Map.empty\<rparr>;
          flt1 = (if podUID \<noteq> ''''
                  then flt0\<lparr>ContainerFilter.LabelSelector := [KubernetesPodUIDLabel \<mapsto> podUID]\<rparr>
                  else flt0);
          flt = (if \<not> all then flt1\<lparr>ContainerFilter.State := Some CONTAINER_RUNNING\<rparr> else flt1)
      in case rpc (ListContainers (Client rs) flt) (ListContainersRequest flt) w of
           (Inl err, w1) \<Rightarrow>
             (([], Some err),
              klog_Errorf ''ListContainers with filter %+v from runtime service failed: %v''
                [ArgContainerFilter flt, ArgErr err] w1)
         | (Inr containers, w1) \<Rightarrow> ((containers, None), w1))"

text \<open>
  The two status fetches read \<open>status := resp.Status\<close> and then \<open>status.Id\<close>, as an
  argument of \<open>klog.V(2).Infof\<close>, with no nil test (lines 201 to 202 and 219 to 220).
  The arguments are evaluated before the call, whatever the verbosity: on a response
  without status the function panics and logs nothing.
\<close>

definition getContainerStatus ::
  "'s runtimeService \<Rightarrow> string \<Rightarrow> 's world \<Rightarrow> (panic + error option) \<times> 's world" where
  "getContainerStatus rs containerID w =
     (case rpc (ContainerStatusRPC (Client rs) containerID) (ContainerStatusRequest containerID) w of
        (Inl err, w1) \<Rightarrow> (Inr (Some err), w1)
      | (Inr None, w1) \<Rightarrow> (Inl NilPointerDereference, w1)
      | (Inr (Some status), w1) \<Rightarrow>
          (Inr None,
           klog_V_Infof 4 ''More Detail: %s\<newline>'' [ArgContainerStatus status]
             (klog_V_Infof 2 ''Container ID: %s, Status: %s, Message: %s, Reason: %s\<newline>''
                [ArgStr (ContainerStatus.Id status),
                 ArgStr (ContainerState_String (ContainerStatus.State status)),
                 ArgStr (Message status), ArgStr (Reason status)] w1)))"

definition getPodSandboxStatus ::
  "'s runtimeService \<Rightarrow> string \<Rightarrow> 's world \<Rightarrow> (panic + error option) \<times> 's world" where
  "getPodSandboxStatus rs sandboxID w =
     (case rpc (PodSandboxStatusRPC (Client rs) sandboxID) (PodSandboxStatusRequest sandboxID) w of
        (Inl err, w1) \<Rightarrow> (Inr (Some err), w1)
      | (Inr None, w1) \<Rightarrow> (Inl NilPointerDereference, w1)
      | (Inr (Some status), w1) \<Rightarrow>
          (Inr None,
           klog_V_Infof 4 ''More Detail: %s\<newline>'' [ArgSandboxStatus status]
             (klog_V_Infof 2 ''Sandbox ID: %s, Status: %s\<newline>''
                [ArgStr (PodSandboxStatus.Id status),
                 ArgStr (PodSandboxState_String (PodSandboxStatus.State status))] w1)))"

section \<open>runtime-service.go: the pod aggregator\<close>

text \<open>The loop over the sandbox listing (lines 106 to 120), on the map \<open>pods\<close>.\<close>

fun getPods_sandboxes ::
  "PodSandbox list \<Rightarrow> (string \<rightharpoonup> Pod) \<Rightarrow> 's world \<Rightarrow> (string \<rightharpoonup> Pod) \<times> 's world" where
  "getPods_sandboxes [] pods w = (pods, w)"
| "getPods_sandboxes (s # sandboxes) pods w =
     (case PodSandbox.Metadata s of
        None \<Rightarrow>
          getPods_sandboxes sandboxes pods
            (klog_V_Infof 2 ''Sandbox does not have metadata: %+v'' [ArgSandbox s] w)
      | Some md \<Rightarrow>
          (let podUID = Uid md in
           if pods podUID = None
           then getPods_sandboxes sandboxes
                  (pods(podUID \<mapsto> \<lparr>ID = podUID, Name = PodSandboxMetadata.Name md,
                                    Namespace = PodSandboxMetadata.Namespace md\<rparr>)) w
           else getPods_sandboxes sandboxes pods w))"

text \<open>The loop over the container listing (lines 126 to 143).\<close>

fun getPods_containers ::
  "Container list \<Rightarrow> (string \<rightharpoonup> Pod) \<Rightarrow> 's world \<Rightarrow> (string \<rightharpoonup> Pod) \<times> 's world" where
  "getPods_containers [] pods w = (pods, w)"
| "getPods_containers (c # containers) pods w =
     (case Container.Metadata c of
        None \<Rightarrow>
          getPods_containers containers pods
            (klog_V_Infof 2 ''Container does not have metadata: %+v'' [ArgContainer c] w)
      | Some _ \<Rightarrow>
          (case getContainerInfoFromLabels (Container.Labels c) w of
             (labelledInfo, w1) \<Rightarrow>
               (case pods (PodUID labelledInfo) of
                  Some pod \<Rightarrow> getPods_containers containers pods w1
                | None \<Rightarrow>
                    getPods_containers containers
                      (pods(PodUID labelledInfo \<mapsto>
                         \<lparr>ID = PodUID labelledInfo, Name = PodName labelledInfo,
                          Namespace = PodNamespace labelledInfo\<rparr>)) w1)))"

text \<open>
  \<open>for _, pod := range pods { result = append(result, pod) }\<close>: the loop visits every
  key of the map once, in an order Go leaves open. \<open>range_values m vs\<close> says that
  \<open>vs\<close> is one of the lists the loop can build.
\<close>

definition range_values :: "('k \<rightharpoonup> 'v) \<Rightarrow> 'v list \<Rightarrow> bool" where
  "range_values m vs \<longleftrightarrow>
     (\<exists>ks. distinct ks \<and> set ks = dom m \<and> vs = map (\<lambda>k. the (m k)) ks)"

text \<open>
  \<open>_getPods\<close>. Because of the order of the last loop the function is a relation between
  the world it starts in and what it returns: \<open>priv_getPods rs w ((result, err), w')\<close>.
\<close>

definition priv_getPods ::
  "'s runtimeService \<Rightarrow> 's world \<Rightarrow> (Pod list \<times> error option) \<times> 's world \<Rightarrow> bool" where
  "priv_getPods rs w out =
     (case getKubeletSandboxs rs '''' True w of
        ((sandboxes, Some err), w1) \<Rightarrow> out = (([], Some err), w1)
      | ((sandboxes, None), w1) \<Rightarrow>
          (case getPods_sandboxes sandboxes Map.empty w1 of
             (pods1, w2) \<Rightarrow>
               (case getKubeletContainers rs '''' True w2 of
                  ((containers, Some err), w3) \<Rightarrow> out = (([], Some err), w3)
                | ((containers, None), w3) \<Rightarrow>
                    (case getPods_containers containers pods1 w3 of
                       (pods2, w4) \<Rightarrow>
                         (\<exists>result. range_values pods2 result \<and> out = ((result, None), w4))))))"

section \<open>runtime-service.go: the status reporter\<close>

text \<open>
  The two loops of \<open>_getPodStatus\<close>. The first runs over what the source calls
  \<open>sandboxes\<close>, a slice of containers (line 157). A loop returns \<open>None\<close> when it has
  run to its end, and the panic of the fetch that panicked otherwise: the entities after
  it are not visited.
\<close>

fun getPodStatus_sandboxes ::
  "'s runtimeService \<Rightarrow> string \<Rightarrow> Container list \<Rightarrow> 's world \<Rightarrow> panic option \<times> 's world" where
  "getPodStatus_sandboxes rs name [] w = (None, w)"
| "getPodStatus_sandboxes rs name (sandbox # sandboxes) w =
     (case getPodSandboxStatus rs (Container.Id sandbox)
             (klog_V_Infof 2 ''Sandbox ID: %s'' [ArgStr (Container.Id sandbox)] w) of
        (Inl p, w1) \<Rightarrow> (Some p, w1)
      | (Inr (Some err), w1) \<Rightarrow>
          getPodStatus_sandboxes rs name sandboxes
            (klog_Errorf ''PodSandboxStatus of sandbox %q for pod %q error: %v''
               [ArgStr (Container.Id sandbox), ArgStr name, ArgErr err] w1)
      | (Inr None, w1) \<Rightarrow> getPodStatus_sandboxes rs name sandboxes w1)"

fun getPodStatus_containers ::
  "'s runtimeService \<Rightarrow> Container list \<Rightarrow> 's world \<Rightarrow> panic option \<times> 's world" where
  "getPodStatus_containers rs [] w = (None, w)"
| "getPodStatus_containers rs (c # containers) w =
     (case getContainerStatus rs (Container.Id c)
             (klog_V_Infof 2 ''Container ID: %s'' [ArgStr (Container.Id c)] w) of
        (Inl p, w1) \<Rightarrow> (Some p, w1)
      | (Inr (Some err), w1) \<Rightarrow>
          getPodStatus_containers rs containers
            (klog_Errorf ''ContainerStatus for %s error: %v''
               [ArgStr (Container.Id c), ArgErr err] w1)
      | (Inr None, w1) \<Rightarrow> getPodStatus_containers rs containers w1)"

text \<open>
  \<open>_getPodStatus\<close>: \<open>Inr err\<close> when it returns \<open>err\<close>, \<open>Inl p\<close> when a status
  fetch panics.
\<close>

definition priv_getPodStatus ::
  "'s runtimeService \<Rightarrow> string \<Rightarrow> string \<Rightarrow> string \<Rightarrow> 's world \<Rightarrow>
     (panic + error option) \<times> 's world" where
  "priv_getPodStatus rs uid name namespace w =
     (case getKubeletContainers rs uid True
             (klog_V_Infof 2 ''Pod ID: %s, Name: %s, Namespace: %s\<newline>''
                [ArgStr uid, ArgStr name, ArgStr namespace] w) of
        ((sandboxes, Some err), w1) \<Rightarrow> (Inr (Some err), w1)
      | ((sandboxes, None), w1) \<Rightarrow>
          (case (if length sandboxes \<noteq> 0 then getPodStatus_sandboxes rs name sandboxes w1
                 else (None, w1)) of
             (Some p, w2) \<Rightarrow> (Inl p, w2)
           | (None, w2) \<Rightarrow>
               (case getKubeletContainers rs uid True w2 of
                  ((containers, Some err), w3) \<Rightarrow> (Inr (Some err), w3)
                | ((containers, None), w3) \<Rightarrow>
                    (case (if length containers \<noteq> 0
                           then getPodStatus_containers rs containers w3
                           else (None, w3)) of
                       (Some p, w4) \<Rightarrow> (Inl p, w4)
                     | (None, w4) \<Rightarrow> (Inr None, w4)))))"

section \<open>Notions the properties are stated with\<close>

text \<open>The value of a label, the empty string when the label is absent.\<close>

definition label_or_empty :: "(string \<rightharpoonup> string) \<Rightarrow> string \<Rightarrow> string" where
  "label_or_empty labels label = (case labels label of Some v \<Rightarrow> v | None \<Rightarrow> '''')"

text \<open>
  The pod UIDs a listing shows: the \<open>Uid\<close> of the metadata of every sandbox that has
  metadata, and the value of the pod-UID label (or the empty string) of every container
  that has metadata, both in the order of the listing.
\<close>

fun sandboxUIDs :: "PodSandbox list \<Rightarrow> string list" where
  "sandboxUIDs [] = []"
| "sandboxUIDs (s # sandboxes) =
     (case PodSandbox.Metadata s of
        None \<Rightarrow> sandboxUIDs sandboxes
      | Some md \<Rightarrow> Uid md # sandboxUIDs sandboxes)"

fun containerUIDs :: "Container list \<Rightarrow> string list" where
  "containerUIDs [] = []"
| "containerUIDs (c # containers) =
     (case Container.Metadata c of
        None \<Rightarrow> containerUIDs containers
      | Some _ \<Rightarrow>
          label_or_empty (Container.Labels c) KubernetesPodUIDLabel # containerUIDs containers)"

text \<open>The metadata of the first sandbox of a listing whose pod UID is \<open>uid\<close>.\<close>

fun firstSandboxOf :: "string \<Rightarrow> PodSandbox list \<Rightarrow> PodSandboxMetadata option" where
  "firstSandboxOf uid [] = None"
| "firstSandboxOf uid (s # sandboxes) =
     (case PodSandbox.Metadata s of
        None \<Rightarrow> firstSandboxOf uid sandboxes
      | Some md \<Rightarrow> if Uid md = uid then Some md else firstSandboxOf uid sandboxes)"

text \<open>
  Two containers that differ at most in what their metadata blocks hold: every other field
  is the same, and the metadata is nil in both or present in both.
\<close>

definition sameButMetadataContents :: "Container \<Rightarrow> Container \<Rightarrow> bool" where
  "sameButMetadataContents c c' \<longleftrightarrow>
     Container.Id c = Container.Id c' \<and>
     Container.PodSandboxId c = Container.PodSandboxId c' \<and>
     Container.State c = Container.State c' \<and>
     Container.Labels c = Container.Labels c' \<and>
     (Container.Metadata c = None) = (Container.Metadata c' = None)"

text \<open>The filter \<open>getKubeletContainers\<close> builds for a pod UID in "all" mode.\<close>

definition containerFilterFor :: "string \<Rightarrow> ContainerFilter" where
  "containerFilterFor podUID =
     \<lparr>ContainerFilter.Id = '''', ContainerFilter.State = None,
      ContainerFilter.PodSandboxId = '''',
      ContainerFilter.LabelSelector =
        (if podUID \<noteq> '''' then [KubernetesPodUIDLabel \<mapsto> podUID] else Map.empty)\<rparr>"

text \<open>
  The entries of a log that \<open>klog.Errorf\<close> wrote, and the entry the status reporter
  writes for an RPC of the trace: one for a status fetch that failed, none otherwise.
\<close>

definition errorEntries :: "klog_entry list \<Rightarrow> klog_entry list" where
  "errorEntries entries = filter (\<lambda>e. fst e = ERROR) entries"

fun statusFailureLog :: "string \<Rightarrow> request \<times> error option \<Rightarrow> klog_entry list" where
  "statusFailureLog name (PodSandboxStatusRequest sandboxID, Some err) =
     [(ERROR, ''PodSandboxStatus of sandbox %q for pod %q error: %v'',
       [ArgStr sandboxID, ArgStr name, ArgErr err])]"
| "statusFailureLog name (ContainerStatusRequest containerID, Some err) =
     [(ERROR, ''ContainerStatus for %s error: %v'', [ArgStr containerID, ArgErr err])]"
| "statusFailureLog name other = []"

fun isListPodSandbox :: "request \<times> error option \<Rightarrow> bool" where
  "isListPodSandbox (ListPodSandboxRequest flt, err) = True"
| "isListPodSandbox other = False"

text \<open>
  The runtime answers every status request with an error or with a response that carries
  a status.
\<close>

definition statusBodies :: "'s runtimeService \<Rightarrow> bool" where
  "statusBodies rs \<longleftrightarrow>
     (\<forall>entityID s.
        fst (ContainerStatusRPC (Client rs) entityID s) \<noteq> Inr None \<and>
        fst (PodSandboxStatusRPC (Client rs) entityID s) \<noteq> Inr None)"

text \<open>Every pod of the map is stored under its own ID.\<close>

definition keyed :: "(string \<rightharpoonup> Pod) \<Rightarrow> bool" where
  "keyed pods \<longleftrightarrow> (\<forall>k p. pods k = Some p \<longrightarrow> ID p = k)"

text \<open>
  The map \<open>pods\<close> after both loops of \<open>_getPods\<close>. The loops read nothing of the
  world, so the map is computed here in a world that logs nothing.
\<close>

definition silent :: "unit world" where
  "silent = \<lparr>runtime = (), calls = [], verbosity = 0, klog = []\<rparr>"

definition aggregated :: "PodSandbox list \<Rightarrow> Container list \<Rightarrow> (string \<rightharpoonup> Pod)" where
  "aggregated S C =
     fst (getPods_containers C (fst (getPods_sandboxes S Map.empty silent)) silent)"

section \<open>A runtime and a library for the examples\<close>

text \<open>
  A runtime that holds the sandboxes \<open>S\<close> and the containers \<open>C\<close>. Its state counts
  the RPCs it has received; RPC number \<open>n\<close> fails in transport unless \<open>alive n\<close>. A
  listing answers with the entities whose labels match the selector of the filter, a status
  RPC with the status of the entity of that ID, or with an error when there is none.
\<close>

definition fakeClient ::
  "PodSandbox list \<Rightarrow> Container list \<Rightarrow> (nat \<Rightarrow> bool) \<Rightarrow> nat RuntimeServiceClient" where
  "fakeClient S C alive =
     \<lparr>ListPodSandbox = (\<lambda>flt n.
        (if alive n
         then Inr (filter (\<lambda>x. PodSandboxFilter.LabelSelector flt \<subseteq>\<^sub>m PodSandbox.Labels x) S)
         else Inl (Error ''transport is closing''), Suc n)),
      ListContainers = (\<lambda>flt n.
        (if alive n
         then Inr (filter (\<lambda>x. ContainerFilter.LabelSelector flt \<subseteq>\<^sub>m Container.Labels x) C)
         else Inl (Error ''transport is closing''), Suc n)),
      ContainerStatusRPC = (\<lambda>containerID n.
        (if alive n
         then (case find (\<lambda>x. Container.Id x = containerID) C of
                 None \<Rightarrow> Inl (Error ''container not found'')
               | Some x \<Rightarrow>
                   Inr (Some \<lparr>ContainerStatus.Id = containerID,
                              ContainerStatus.State = Container.State x,
                              Message = '''', Reason = ''''\<rparr>))
         else Inl (Error ''transport is closing''), Suc n)),
      PodSandboxStatusRPC = (\<lambda>sandboxID n.
        (if alive n
         then (case find (\<lambda>x. PodSandbox.Id x = sandboxID) S of
                 None \<Rightarrow> Inl (Error ''sandbox not found'')
               | Some x \<Rightarrow>
                   Inr (Some \<lparr>PodSandboxStatus.Id = sandboxID,
                              PodSandboxStatus.State = PodSandbox.State x\<rparr>))
         else Inl (Error ''transport is closing''), Suc n))\<rparr>"

definition fakeService ::
  "PodSandbox list \<Rightarrow> Container list \<Rightarrow> (nat \<Rightarrow> bool) \<Rightarrow> nat runtimeService" where
  "fakeService S C alive = \<lparr>Client = fakeClient S C alive, Timeout = 120000000000\<rparr>"

text \<open>
  The same runtime, always alive, except that it answers every container-status request
  with a response that carries no status and no error.
\<close>

definition emptyStatusService :: "PodSandbox list \<Rightarrow> Container list \<Rightarrow> nat runtimeService" where
  "emptyStatusService S C =
     \<lparr>Client = (fakeClient S C (\<lambda>n. True))
                 \<lparr>ContainerStatusRPC := (\<lambda>containerID n. (Inr None, Suc n))\<rparr>,
      Timeout = 120000000000\<rparr>"

definition world0 :: "nat world" where
  "world0 = \<lparr>runtime = 0, calls = [], verbosity = 2, klog = []\<rparr>"

definition sandbox_nginx :: PodSandbox where
  "sandbox_nginx =
     \<lparr>PodSandbox.Id = ''s1'',
      PodSandbox.Metadata =
        Some \<lparr>PodSandboxMetadata.Name = ''nginx'', Uid = ''p1'',
              PodSandboxMetadata.Namespace = ''default'', PodSandboxMetadata.Attempt = 0\<rparr>,
      PodSandbox.State = SANDBOX_READY,
      PodSandbox.Labels = [KubernetesPodUIDLabel \<mapsto> ''p1'']\<rparr>"

definition sandbox_legacy :: PodSandbox where
  "sandbox_legacy =
     \<lparr>PodSandbox.Id = ''s0'', PodSandbox.Metadata = None,
      PodSandbox.State = SANDBOX_NOTREADY, PodSandbox.Labels = Map.empty\<rparr>"

definition container_web :: Container where
  "container_web =
     \<lparr>Container.Id = ''c1'', Container.PodSandboxId = ''s1'',
      Container.Metadata = Some \<lparr>ContainerMetadata.Name = ''web'', ContainerMetadata.Attempt = 0\<rparr>,
      Container.State = CONTAINER_RUNNING,
      Container.Labels =
        [KubernetesPodUIDLabel \<mapsto> ''p1'', KubernetesPodNameLabel \<mapsto> ''relabelled'',
         KubernetesPodNamespaceLabel \<mapsto> ''other'']\<rparr>"

definition container_redis :: Container where
  "container_redis =
     \<lparr>Container.Id = ''c2'', Container.PodSandboxId = ''s2'',
      Container.Metadata = Some \<lparr>ContainerMetadata.Name = ''redis'', ContainerMetadata.Attempt = 0\<rparr>,
      Container.State = CONTAINER_EXITED,
      Container.Labels =
        [KubernetesPodUIDLabel \<mapsto> ''p2'', KubernetesPodNameLabel \<mapsto> ''redis'',
         KubernetesPodNamespaceLabel \<mapsto> ''default'']\<rparr>"

definition container_legacy :: Container where
  "container_legacy =
     \<lparr>Container.Id = ''c0'', Container.PodSandboxId = '''', Container.Metadata = None,
      Container.State = CONTAINER_UNKNOWN,
      Container.Labels = [KubernetesPodUIDLabel \<mapsto> ''p9'']\<rparr>"

definition container_bare :: Container where
  "container_bare =
     \<lparr>Container.Id = ''c3'', Container.PodSandboxId = '''',
      Container.Metadata = Some \<lparr>ContainerMetadata.Name = ''bare'', ContainerMetadata.Attempt = 0\<rparr>,
      Container.State = CONTAINER_CREATED, Container.Labels = Map.empty\<rparr>"

definition container_sidecar :: Container where
  "container_sidecar =
     \<lparr>Container.Id = ''c5'', Container.PodSandboxId = ''s1'',
      Container.Metadata =
        Some \<lparr>ContainerMetadata.Name = ''sidecar'', ContainerMetadata.Attempt = 0\<rparr>,
      Container.State = CONTAINER_RUNNING,
      Container.Labels =
        [KubernetesPodUIDLabel \<mapsto> ''p1'', KubernetesPodNameLabel \<mapsto> ''nginx'',
         KubernetesPodNamespaceLabel \<mapsto> ''default'']\<rparr>"

definition container_bare2 :: Container where
  "container_bare2 = container_bare\<lparr>Container.Id := ''c4''\<rparr>"

definition sandboxes0 :: "PodSandbox list" where
  "sandboxes0 = [sandbox_legacy, sandbox_nginx]"

definition containers0 :: "Container list" where
  "containers0 = [container_web, container_redis, container_legacy]"

text \<open>The containers of \<open>containers0\<close> with other names and attempts in their metadata.\<close>

definition containers0_renamed :: "Container list" where
  "containers0_renamed =
     [container_web\<lparr>Container.Metadata :=
        Some \<lparr>ContainerMetadata.Name = ''frontend'', ContainerMetadata.Attempt = 7\<rparr>\<rparr>,
      container_redis\<lparr>Container.Metadata :=
        Some \<lparr>ContainerMetadata.Name = ''cache'', ContainerMetadata.Attempt = 1\<rparr>\<rparr>,
      container_legacy]"

text \<open>
  The pods of \<open>sandboxes0\<close> and \<open>containers0\<close>: the sandbox seeds \<open>p1\<close>, the label
  of \<open>container_redis\<close> seeds \<open>p2\<close>.
\<close>

definition pods0 :: "Pod list" where
  "pods0 =
     [\<lparr>ID = ''p1'', Name = ''nginx'', Namespace = ''default''\<rparr>,
      \<lparr>ID = ''p2'', Name = ''redis'', Namespace = ''default''\<rparr>]"

text \<open>What \<open>url.Parse\<close> returns for three endpoints, in a library that dials nothing.\<close>

definition parse0 :: "string \<Rightarrow> error + URL" where
  "parse0 endpoint =
     (if endpoint = ''unix:///var/run/dockershim.sock''
      then Inr \<lparr>Scheme = ''unix'', Host = '''', Path = ''/var/run/dockershim.sock''\<rparr>
      else if endpoint = ''tcp://127.0.0.1:2375''
      then Inr \<lparr>Scheme = ''tcp'', Host = ''127.0.0.1:2375'', Path = ''''\<rparr>
      else Inl (Error ''missing protocol scheme''))"

definition library0 :: "(unit, unit, nat) library" where
  "library0 =
     \<lparr>url_Parse = parse0,
      net_DialTimeout = (\<lambda>network addr timeout. Inl (Error ''dial: no such file or directory'')),
      grpc_DialContext = (\<lambda>timeout addr dialer size. Inr ()),
      NewRuntimeServiceClient = (\<lambda>conn. fakeClient sandboxes0 containers0 (\<lambda>n. True))\<rparr>"

section \<open>Lemmas\<close>

lemma klog_Infof_sel [simp]:
  "runtime (klog_Infof f a w) = runtime w"
  "calls (klog_Infof f a w) = calls w"
  "verbosity (klog_Infof f a w) = verbosity w"
  "klog (klog_Infof f a w) = klog w @ [(INFO, f, a)]"
  by (simp_all add: klog_Infof_def)

lemma klog_Errorf_sel [simp]:
  "runtime (klog_Errorf f a w) = runtime w"
  "calls (klog_Errorf f a w) = calls w"
  "verbosity (klog_Errorf f a w) = verbosity w"
  "klog (klog_Errorf f a w) = klog w @ [(ERROR, f, a)]"
  by (simp_all add: klog_Errorf_def)

lemma klog_V_Infof_sel [simp]:
  "runtime (klog_V_Infof n f a w) = runtime w"
  "calls (klog_V_Infof n f a w) = calls w"
  "verbosity (klog_V_Infof n f a w) = verbosity w"
  by (simp_all add: klog_V_Infof_def)

lemma getStringValueFromLabel_fst:
  "fst (getStringValueFromLabel labels label w) = label_or_empty labels label"
  by (simp add: getStringValueFromLabel_def label_or_empty_def split: option.split)

lemma getStringValueFromLabel_world [simp]:
  "runtime (snd (getStringValueFromLabel labels label w)) = runtime w"
  "calls (snd (getStringValueFromLabel labels label w)) = calls w"
  "verbosity (snd (getStringValueFromLabel labels label w)) = verbosity w"
  by (simp_all add: getStringValueFromLabel_def split: option.split)

lemma getContainerInfoFromLabels_fst:
  "fst (getContainerInfoFromLabels labels w) =
     \<lparr>ContainerName = label_or_empty labels KubernetesContainerNameLabel,
      PodName = label_or_empty labels KubernetesPodNameLabel,
      PodNamespace = label_or_empty labels KubernetesPodNamespaceLabel,
      PodUID = label_or_empty labels KubernetesPodUIDLabel\<rparr>"
  by (simp add: getContainerInfoFromLabels_def split: prod.split)
     (metis getStringValueFromLabel_fst fst_conv)

lemma getContainerInfoFromLabels_world [simp]:
  "runtime (snd (getContainerInfoFromLabels labels w)) = runtime w"
  "calls (snd (getContainerInfoFromLabels labels w)) = calls w"
  "verbosity (snd (getContainerInfoFromLabels labels w)) = verbosity w"
  by (simp_all add: getContainerInfoFromLabels_def split: prod.split)
     (metis getStringValueFromLabel_world snd_conv)+

lemma keyed_empty: "keyed Map.empty"
  by (simp add: keyed_def)

lemma keyed_upd: "keyed pods \<Longrightarrow> ID p = k \<Longrightarrow> keyed (pods(k \<mapsto> p))"
  by (simp add: keyed_def)

lemma getPods_sandboxes_dom:
  "dom (fst (getPods_sandboxes S pods w)) = dom pods \<union> set (sandboxUIDs S)"
  by (induction S arbitrary: pods w) (auto simp: Let_def split: option.splits)

lemma getPods_sandboxes_keyed:
  "keyed pods \<Longrightarrow> keyed (fst (getPods_sandboxes S pods w))"
  by (induction S arbitrary: pods w) (auto simp: Let_def keyed_upd split: option.splits)

lemma getPods_sandboxes_keep:
  "pods u = Some p \<Longrightarrow> fst (getPods_sandboxes S pods w) u = Some p"
proof (induction S arbitrary: pods w)
  case Nil
  then show ?case by simp
next
  case (Cons s S)
  show ?case
  proof (cases "PodSandbox.Metadata s")
    case None
    with Cons show ?thesis by simp
  next
    case (Some md)
    show ?thesis
    proof (cases "pods (Uid md) = None")
      case True
      with Cons.prems have "(pods(Uid md \<mapsto> q)) u = Some p" for q
        by auto
      then have "fst (getPods_sandboxes S (pods(Uid md \<mapsto> q)) w) u = Some p" for q
        by (rule Cons.IH)
      with Some True show ?thesis
        by (simp add: Let_def)
    next
      case False
      with Some Cons show ?thesis by (auto simp: Let_def)
    qed
  qed
qed

lemma getPods_sandboxes_first:
  "pods u = None \<Longrightarrow> firstSandboxOf u S = Some md \<Longrightarrow>
   fst (getPods_sandboxes S pods w) u =
     Some \<lparr>ID = u, Name = PodSandboxMetadata.Name md, Namespace = PodSandboxMetadata.Namespace md\<rparr>"
  by (induction S arbitrary: pods w)
     (auto simp: Let_def getPods_sandboxes_keep split: option.splits if_splits)

lemma getPods_sandboxes_any_world:
  "fst (getPods_sandboxes S pods w) = fst (getPods_sandboxes S pods v)"
  by (induction S arbitrary: pods w v) (auto simp: Let_def split: option.splits)

lemma getPods_sandboxes_world [simp]:
  "runtime (snd (getPods_sandboxes S pods w)) = runtime w"
  "calls (snd (getPods_sandboxes S pods w)) = calls w"
  "verbosity (snd (getPods_sandboxes S pods w)) = verbosity w"
  by (induction S arbitrary: pods w) (auto simp: Let_def split: option.splits)

lemma getPods_sandboxes_skip:
  "fst (getPods_sandboxes (filter (\<lambda>s. PodSandbox.Metadata s \<noteq> None) S) pods v) =
   fst (getPods_sandboxes S pods w)"
  by (induction S arbitrary: pods w v) (auto simp: Let_def split: option.splits)

lemma firstSandboxOf_mem:
  "u \<in> set (sandboxUIDs S) \<Longrightarrow> \<exists>md. firstSandboxOf u S = Some md"
  by (induction S) (auto split: option.splits)

lemma getPods_containers_dom:
  "dom (fst (getPods_containers C pods w)) = dom pods \<union> set (containerUIDs C)"
  by (induction C arbitrary: pods w)
     (auto simp: getContainerInfoFromLabels_fst case_prod_beta split: option.splits)

lemma getPods_containers_keyed:
  "keyed pods \<Longrightarrow> keyed (fst (getPods_containers C pods w))"
  by (induction C arbitrary: pods w)
     (auto simp: getContainerInfoFromLabels_fst case_prod_beta keyed_upd split: option.splits)

lemma getPods_containers_keep:
  "pods u = Some p \<Longrightarrow> fst (getPods_containers C pods w) u = Some p"
proof (induction C arbitrary: pods w)
  case Nil
  then show ?case by simp
next
  case (Cons c C)
  show ?case
  proof (cases "Container.Metadata c")
    case None
    with Cons show ?thesis by simp
  next
    case (Some md)
    let ?k = "PodUID (fst (getContainerInfoFromLabels (Container.Labels c) w))"
    let ?w1 = "snd (getContainerInfoFromLabels (Container.Labels c) w)"
    show ?thesis
    proof (cases "pods ?k")
      case None
      with Cons.prems have "(pods(?k \<mapsto> q)) u = Some p" for q
        by auto
      then have "fst (getPods_containers C (pods(?k \<mapsto> q)) ?w1) u = Some p" for q
        by (rule Cons.IH)
      with Some None show ?thesis
        by (simp add: case_prod_beta)
    next
      case (Some q)
      with \<open>Container.Metadata c = Some md\<close> Cons show ?thesis
        by (simp add: case_prod_beta)
    qed
  qed
qed

lemma getPods_containers_any_world:
  "fst (getPods_containers C pods w) = fst (getPods_containers C pods v)"
  by (induction C arbitrary: pods w v)
     (auto simp: getContainerInfoFromLabels_fst case_prod_beta split: option.splits)

lemma getPods_containers_world [simp]:
  "runtime (snd (getPods_containers C pods w)) = runtime w"
  "calls (snd (getPods_containers C pods w)) = calls w"
  "verbosity (snd (getPods_containers C pods w)) = verbosity w"
  by (induction C arbitrary: pods w) (auto simp: case_prod_beta split: option.splits)

lemma getPods_containers_skip:
  "fst (getPods_containers (filter (\<lambda>c. Container.Metadata c \<noteq> None) C) pods v) =
   fst (getPods_containers C pods w)"
  by (induction C arbitrary: pods w v)
     (auto simp: getContainerInfoFromLabels_fst case_prod_beta split: option.splits)

lemma getPods_containers_metadata_contents:
  "list_all2 sameButMetadataContents C C' \<Longrightarrow>
   fst (getPods_containers C pods w) = fst (getPods_containers C' pods v)"
proof (induction C C' arbitrary: pods w v rule: list_all2_induct)
  case Nil
  then show ?case by simp
next
  case (Cons c C c' C')
  from Cons.hyps(1) have l: "Container.Labels c' = Container.Labels c"
    and m: "(Container.Metadata c = None) = (Container.Metadata c' = None)"
    by (simp_all add: sameButMetadataContents_def)
  show ?case
  proof (cases "Container.Metadata c")
    case None
    with m have "Container.Metadata c' = None" by simp
    with None show ?thesis by (simp add: Cons.IH)
  next
    case (Some md)
    with m obtain md' where "Container.Metadata c' = Some md'" by auto
    with Some l show ?thesis
      by (auto simp: getContainerInfoFromLabels_fst case_prod_beta Cons.IH split: option.splits)
  qed
qed

lemma aggregated_eq:
  "fst (getPods_containers C (fst (getPods_sandboxes S Map.empty w)) v) = aggregated S C"
  unfolding aggregated_def
  using getPods_sandboxes_any_world [of S Map.empty w silent]
        getPods_containers_any_world [of C _ v silent]
  by simp

lemma aggregated_dom:
  "dom (aggregated S C) = set (sandboxUIDs S) \<union> set (containerUIDs C)"
  by (simp add: aggregated_def getPods_containers_dom getPods_sandboxes_dom)

lemma aggregated_keyed: "keyed (aggregated S C)"
  by (simp add: aggregated_def getPods_containers_keyed getPods_sandboxes_keyed keyed_empty)

lemma aggregated_finite: "finite (dom (aggregated S C))"
  by (simp add: aggregated_dom)

lemma aggregated_sandbox_first:
  "firstSandboxOf u S = Some md \<Longrightarrow>
   aggregated S C u =
     Some \<lparr>ID = u, Name = PodSandboxMetadata.Name md, Namespace = PodSandboxMetadata.Namespace md\<rparr>"
  by (simp add: aggregated_def getPods_containers_keep getPods_sandboxes_first)

lemma aggregated_skip:
  "aggregated (filter (\<lambda>s. PodSandbox.Metadata s \<noteq> None) S)
              (filter (\<lambda>c. Container.Metadata c \<noteq> None) C) = aggregated S C"
  unfolding aggregated_def
  using getPods_sandboxes_skip [of S Map.empty silent silent]
        getPods_containers_skip [of C _ silent silent]
  by simp

lemma aggregated_metadata_contents:
  "list_all2 sameButMetadataContents C C' \<Longrightarrow> aggregated S C = aggregated S C'"
  unfolding aggregated_def by (rule getPods_containers_metadata_contents)

lemma range_values_keyed:
  assumes "keyed m" and "range_values m vs"
  shows "distinct (map ID vs)" and "set (map ID vs) = dom m"
    and "p \<in> set vs \<Longrightarrow> m (ID p) = Some p"
proof -
  from assms(2) obtain ks where ks: "distinct ks" "set ks = dom m"
    and vs: "vs = map (\<lambda>k. the (m k)) ks"
    by (auto simp: range_values_def)
  have "ID (the (m k)) = k" if "k \<in> set ks" for k
    using that ks(2) assms(1) by (auto simp: keyed_def dom_def)
  then have ids: "map ID vs = ks"
    by (simp add: vs map_idI)
  with ks show "distinct (map ID vs)" and "set (map ID vs) = dom m"
    by simp_all
  show "m (ID p) = Some p" if "p \<in> set vs"
  proof -
    from that obtain k where k: "k \<in> set ks" "p = the (m k)"
      by (auto simp: vs)
    with ks(2) obtain q where "m k = Some q" by auto
    with k assms(1) show ?thesis by (auto simp: keyed_def)
  qed
qed

lemma range_values_mem:
  assumes "range_values m vs" and "m k = Some p"
  shows "p \<in> set vs"
proof -
  from assms(1) obtain ks where ks: "set ks = dom m"
    and vs: "vs = map (\<lambda>k. the (m k)) ks"
    by (auto simp: range_values_def)
  from assms(2) ks have "k \<in> set ks" by auto
  then have "the (m k) \<in> set vs" by (simp add: vs)
  with assms(2) show ?thesis by simp
qed

lemma range_values_exists:
  "finite (dom m) \<Longrightarrow> \<exists>vs. range_values m vs"
  unfolding range_values_def using finite_distinct_list [of "dom m"] by blast

lemma priv_getPods_success:
  assumes "getKubeletSandboxs rs '''' True w = ((S, None), w1)"
    and "getKubeletContainers rs '''' True (snd (getPods_sandboxes S Map.empty w1)) = ((C, None), w3)"
  shows "priv_getPods rs w out \<longleftrightarrow>
     (\<exists>result. range_values (aggregated S C) result \<and>
        out = ((result, None),
               snd (getPods_containers C (fst (getPods_sandboxes S Map.empty w1)) w3)))"
  by (simp add: priv_getPods_def assms case_prod_beta aggregated_eq)

lemma priv_getPods_total:
  "\<exists>out. priv_getPods rs w out"
proof -
  obtain S e1 w1 where l1: "getKubeletSandboxs rs '''' True w = ((S, e1), w1)"
    by (metis prod.collapse)
  obtain C e2 w3 where l2:
    "getKubeletContainers rs '''' True (snd (getPods_sandboxes S Map.empty w1)) = ((C, e2), w3)"
    by (metis prod.collapse)
  obtain vs where vs: "range_values (aggregated S C) vs"
    using range_values_exists [OF aggregated_finite] by blast
  show ?thesis
  proof (cases e1)
    case (Some e)
    with l1 show ?thesis by (simp add: priv_getPods_def)
  next
    case None
    note n1 = this
    show ?thesis
    proof (cases e2)
      case (Some e)
      with l1 l2 n1 show ?thesis by (simp add: priv_getPods_def case_prod_beta)
    next
      case None
      with l1 l2 n1 vs show ?thesis
        by (auto simp: priv_getPods_def case_prod_beta aggregated_eq)
    qed
  qed
qed

lemma getPods_containers_seed:
  "fst (getPods_containers C pods w) u = Some p \<Longrightarrow> pods u = None \<Longrightarrow>
   \<exists>c \<in> set C. Container.Metadata c \<noteq> None \<and>
      p = \<lparr>ID = u,
           Name = label_or_empty (Container.Labels c) KubernetesPodNameLabel,
           Namespace = label_or_empty (Container.Labels c) KubernetesPodNamespaceLabel\<rparr> \<and>
      u = label_or_empty (Container.Labels c) KubernetesPodUIDLabel"
proof (induction C arbitrary: pods w)
  case Nil
  then show ?case by simp
next
  case (Cons c C)
  show ?case
  proof (cases "Container.Metadata c")
    case None
    with Cons.prems have "fst (getPods_containers C pods
        (klog_V_Infof 2 ''Container does not have metadata: %+v'' [ArgContainer c] w)) u = Some p"
      by simp
    from Cons.IH [OF this Cons.prems(2)] show ?thesis by auto
  next
    case (Some md)
    let ?k = "label_or_empty (Container.Labels c) KubernetesPodUIDLabel"
    let ?q = "\<lparr>ID = ?k,
           Name = label_or_empty (Container.Labels c) KubernetesPodNameLabel,
           Namespace = label_or_empty (Container.Labels c) KubernetesPodNamespaceLabel\<rparr>"
    let ?w1 = "snd (getContainerInfoFromLabels (Container.Labels c) w)"
    show ?thesis
    proof (cases "pods ?k")
      case None
      with Some Cons.prems(1)
      have run: "fst (getPods_containers C (pods(?k \<mapsto> ?q)) ?w1) u = Some p"
        by (simp add: case_prod_beta getContainerInfoFromLabels_fst)
      show ?thesis
      proof (cases "u = ?k")
        case True
        have "fst (getPods_containers C (pods(?k \<mapsto> ?q)) ?w1) ?k = Some ?q"
          by (rule getPods_containers_keep) simp
        with run True have "p = ?q" by simp
        with True Some show ?thesis by auto
      next
        case False
        with Cons.prems(2) have "(pods(?k \<mapsto> ?q)) u = None" by simp
        from Cons.IH [OF run this] show ?thesis by auto
      qed
    next
      case (Some q)
      with \<open>Container.Metadata c = Some md\<close> Cons.prems(1)
      have "fst (getPods_containers C pods ?w1) u = Some p"
        by (simp add: case_prod_beta getContainerInfoFromLabels_fst)
      from Cons.IH [OF this Cons.prems(2)] show ?thesis by auto
    qed
  qed
qed

lemma aggregated_container_seed:
  assumes "aggregated S C u = Some p" and "u \<notin> set (sandboxUIDs S)"
  shows "\<exists>c \<in> set C. Container.Metadata c \<noteq> None \<and>
      p = \<lparr>ID = u,
           Name = label_or_empty (Container.Labels c) KubernetesPodNameLabel,
           Namespace = label_or_empty (Container.Labels c) KubernetesPodNamespaceLabel\<rparr> \<and>
      u = label_or_empty (Container.Labels c) KubernetesPodUIDLabel"
proof -
  from assms(2) have "u \<notin> dom (fst (getPods_sandboxes S Map.empty silent))"
    by (simp add: getPods_sandboxes_dom)
  then have "fst (getPods_sandboxes S Map.empty silent) u = None"
    by auto
  with assms(1) show ?thesis
    unfolding aggregated_def by (rule getPods_containers_seed)
qed

lemma count_distinct_key:
  "distinct (map f xs) \<Longrightarrow> k \<in> set (map f xs) \<Longrightarrow> length (filter (\<lambda>x. f x = k) xs) = 1"
proof (induction xs)
  case Nil
  then show ?case by simp
next
  case (Cons x xs)
  show ?case
  proof (cases "f x = k")
    case True
    with Cons.prems(1) have "filter (\<lambda>y. f y = k) xs = []"
      by (auto simp: filter_empty_conv image_iff)
    with True show ?thesis by simp
  next
    case False
    with Cons show ?thesis by auto
  qed
qed

lemma containerUIDs_mem:
  "c \<in> set C \<Longrightarrow> Container.Metadata c \<noteq> None \<Longrightarrow>
   label_or_empty (Container.Labels c) KubernetesPodUIDLabel \<in> set (containerUIDs C)"
  by (induction C) (auto split: option.splits)

lemma errorEntries_append [simp]:
  "errorEntries (xs @ ys) = errorEntries xs @ errorEntries ys"
  by (simp add: errorEntries_def)

lemma errorEntries_Nil [simp]: "errorEntries [] = []"
  by (simp add: errorEntries_def)

lemma errorEntries_Cons [simp]:
  "errorEntries ((sev, f, a) # xs) =
     (if sev = ERROR then (sev, f, a) # errorEntries xs else errorEntries xs)"
  by (simp add: errorEntries_def)

lemma errorEntries_klog_V_Infof [simp]:
  "errorEntries (klog (klog_V_Infof n f a w)) = errorEntries (klog w)"
  by (simp add: klog_V_Infof_def)

lemma rpc_world:
  "calls (snd (rpc call req w)) = calls w @ [(req, error_of (fst (rpc call req w)))]"
  "klog (snd (rpc call req w)) = klog w"
  "verbosity (snd (rpc call req w)) = verbosity w"
  by (simp_all add: rpc_def case_prod_beta)

lemma getKubeletContainers_filter:
  "getKubeletContainers rs uid True w =
     (case rpc (ListContainers (Client rs) (containerFilterFor uid))
             (ListContainersRequest (containerFilterFor uid)) w of
        (Inl err, w1) \<Rightarrow>
          (([], Some err),
           klog_Errorf ''ListContainers with filter %+v from runtime service failed: %v''
             [ArgContainerFilter (containerFilterFor uid), ArgErr err] w1)
      | (Inr containers, w1) \<Rightarrow> ((containers, None), w1))"
  by (auto simp: getKubeletContainers_def containerFilterFor_def Let_def
           split: prod.splits sum.splits)

lemma getKubeletContainers_calls:
  "calls (snd (getKubeletContainers rs uid True w)) =
     calls w @ [(ListContainersRequest (containerFilterFor uid),
                 snd (fst (getKubeletContainers rs uid True w)))]"
  by (simp add: getKubeletContainers_filter rpc_world case_prod_beta error_of_def
           split: sum.splits)

lemma getKubeletContainers_ok:
  assumes "getKubeletContainers rs uid True w = ((cs, None), w1)"
  shows "calls w1 = calls w @ [(ListContainersRequest (containerFilterFor uid), None)]"
    and "klog w1 = klog w"
proof -
  have w1: "w1 = snd (getKubeletContainers rs uid True w)"
    and e: "snd (fst (getKubeletContainers rs uid True w)) = None"
    by (simp_all add: assms)
  show "calls w1 = calls w @ [(ListContainersRequest (containerFilterFor uid), None)]"
    unfolding w1 getKubeletContainers_calls e ..
  from e show "klog w1 = klog w"
    unfolding w1
    by (simp add: getKubeletContainers_filter rpc_world case_prod_beta split: sum.splits)
qed

lemma getPodSandboxStatus_world:
  "calls (snd (getPodSandboxStatus rs sandboxID w)) =
     calls w @ [(PodSandboxStatusRequest sandboxID,
                 (case fst (getPodSandboxStatus rs sandboxID w) of Inl p \<Rightarrow> None | Inr e \<Rightarrow> e))]"
  "errorEntries (klog (snd (getPodSandboxStatus rs sandboxID w))) = errorEntries (klog w)"
  by (simp_all add: getPodSandboxStatus_def rpc_world case_prod_beta error_of_def
           split: sum.splits option.splits)

lemma getContainerStatus_world:
  "calls (snd (getContainerStatus rs containerID w)) =
     calls w @ [(ContainerStatusRequest containerID,
                 (case fst (getContainerStatus rs containerID w) of Inl p \<Rightarrow> None | Inr e \<Rightarrow> e))]"
  "errorEntries (klog (snd (getContainerStatus rs containerID w))) = errorEntries (klog w)"
  by (simp_all add: getContainerStatus_def rpc_world case_prod_beta error_of_def
           split: sum.splits option.splits)

lemma statusBodies_returns:
  assumes "statusBodies rs"
  shows "\<exists>e. fst (getPodSandboxStatus rs entityID w) = Inr e"
    and "\<exists>e. fst (getContainerStatus rs entityID w) = Inr e"
proof -
  from assms have "fst (PodSandboxStatusRPC (Client rs) entityID (runtime w)) \<noteq> Inr None"
    and "fst (ContainerStatusRPC (Client rs) entityID (runtime w)) \<noteq> Inr None"
    by (simp_all add: statusBodies_def)
  then show "\<exists>e. fst (getPodSandboxStatus rs entityID w) = Inr e"
    and "\<exists>e. fst (getContainerStatus rs entityID w) = Inr e"
    by (simp_all add: getPodSandboxStatus_def getContainerStatus_def rpc_def case_prod_beta
          split: sum.splits option.splits)
qed

lemma getPodStatus_sandboxes_trace:
  assumes "statusBodies rs"
  shows "fst (getPodStatus_sandboxes rs name xs w) = None \<and>
    (\<exists>new. calls (snd (getPodStatus_sandboxes rs name xs w)) = calls w @ new \<and>
       map fst new = map (\<lambda>x. PodSandboxStatusRequest (Container.Id x)) xs \<and>
       errorEntries (klog (snd (getPodStatus_sandboxes rs name xs w))) =
         errorEntries (klog w) @ concat (map (statusFailureLog name) new))"
proof (induction xs arbitrary: w)
  case Nil
  then show ?case by simp
next
  case (Cons x xs)
  let ?w0 = "klog_V_Infof 2 ''Sandbox ID: %s'' [ArgStr (Container.Id x)] w"
  let ?r = "getPodSandboxStatus rs (Container.Id x) ?w0"
  obtain e where e: "fst ?r = Inr e"
    using statusBodies_returns(1) [OF assms] by blast
  let ?call = "(PodSandboxStatusRequest (Container.Id x), e)"
  have c: "calls (snd ?r) = calls w @ [?call]"
    and l: "errorEntries (klog (snd ?r)) = errorEntries (klog w)"
    by (simp_all add: getPodSandboxStatus_world e)
  show ?case
  proof (cases e)
    case None
    with e have step: "getPodStatus_sandboxes rs name (x # xs) w =
        getPodStatus_sandboxes rs name xs (snd ?r)"
      by (simp add: case_prod_beta)
    from Cons.IH [of "snd ?r"] obtain new where
      n: "fst (getPodStatus_sandboxes rs name xs (snd ?r)) = None"
        "calls (snd (getPodStatus_sandboxes rs name xs (snd ?r))) = calls (snd ?r) @ new"
        "map fst new = map (\<lambda>x. PodSandboxStatusRequest (Container.Id x)) xs"
        "errorEntries (klog (snd (getPodStatus_sandboxes rs name xs (snd ?r)))) =
           errorEntries (klog (snd ?r)) @ concat (map (statusFailureLog name) new)"
      by blast
    show ?thesis
      unfolding step
      by (rule conjI [OF n(1)], rule exI [of _ "?call # new"]) (simp add: n c l None)
  next
    case (Some err)
    let ?w2 = "klog_Errorf ''PodSandboxStatus of sandbox %q for pod %q error: %v''
               [ArgStr (Container.Id x), ArgStr name, ArgErr err] (snd ?r)"
    from Some e have step: "getPodStatus_sandboxes rs name (x # xs) w =
        getPodStatus_sandboxes rs name xs ?w2"
      by (simp add: case_prod_beta)
    from Cons.IH [of ?w2] obtain new where
      n: "fst (getPodStatus_sandboxes rs name xs ?w2) = None"
        "calls (snd (getPodStatus_sandboxes rs name xs ?w2)) = calls ?w2 @ new"
        "map fst new = map (\<lambda>x. PodSandboxStatusRequest (Container.Id x)) xs"
        "errorEntries (klog (snd (getPodStatus_sandboxes rs name xs ?w2))) =
           errorEntries (klog ?w2) @ concat (map (statusFailureLog name) new)"
      by blast
    show ?thesis
      unfolding step
      by (rule conjI [OF n(1)], rule exI [of _ "?call # new"]) (simp add: n c l Some)
  qed
qed

lemma getPodStatus_containers_trace:
  assumes "statusBodies rs"
  shows "fst (getPodStatus_containers rs xs w) = None \<and>
    (\<exists>new. calls (snd (getPodStatus_containers rs xs w)) = calls w @ new \<and>
       map fst new = map (\<lambda>x. ContainerStatusRequest (Container.Id x)) xs \<and>
       errorEntries (klog (snd (getPodStatus_containers rs xs w))) =
         errorEntries (klog w) @ concat (map (statusFailureLog name) new))"
proof (induction xs arbitrary: w)
  case Nil
  then show ?case by simp
next
  case (Cons x xs)
  let ?w0 = "klog_V_Infof 2 ''Container ID: %s'' [ArgStr (Container.Id x)] w"
  let ?r = "getContainerStatus rs (Container.Id x) ?w0"
  obtain e where e: "fst ?r = Inr e"
    using statusBodies_returns(2) [OF assms] by blast
  let ?call = "(ContainerStatusRequest (Container.Id x), e)"
  have c: "calls (snd ?r) = calls w @ [?call]"
    and l: "errorEntries (klog (snd ?r)) = errorEntries (klog w)"
    by (simp_all add: getContainerStatus_world e)
  show ?case
  proof (cases e)
    case None
    with e have step: "getPodStatus_containers rs (x # xs) w =
        getPodStatus_containers rs xs (snd ?r)"
      by (simp add: case_prod_beta)
    from Cons.IH [of "snd ?r"] obtain new where
      n: "fst (getPodStatus_containers rs xs (snd ?r)) = None"
        "calls (snd (getPodStatus_containers rs xs (snd ?r))) = calls (snd ?r) @ new"
        "map fst new = map (\<lambda>x. ContainerStatusRequest (Container.Id x)) xs"
        "errorEntries (klog (snd (getPodStatus_containers rs xs (snd ?r)))) =
           errorEntries (klog (snd ?r)) @ concat (map (statusFailureLog name) new)"
      by blast
    show ?thesis
      unfolding step
      by (rule conjI [OF n(1)], rule exI [of _ "?call # new"]) (simp add: n c l None)
  next
    case (Some err)
    let ?w2 = "klog_Errorf ''ContainerStatus for %s error: %v''
               [ArgStr (Container.Id x), ArgErr err] (snd ?r)"
    from Some e have step: "getPodStatus_containers rs (x # xs) w =
        getPodStatus_containers rs xs ?w2"
      by (simp add: case_prod_beta)
    from Cons.IH [of ?w2] obtain new where
      n: "fst (getPodStatus_containers rs xs ?w2) = None"
        "calls (snd (getPodStatus_containers rs xs ?w2)) = calls ?w2 @ new"
        "map fst new = map (\<lambda>x. ContainerStatusRequest (Container.Id x)) xs"
        "errorEntries (klog (snd (getPodStatus_containers rs xs ?w2))) =
           errorEntries (klog ?w2) @ concat (map (statusFailureLog name) new)"
      by blast
    show ?thesis
      unfolding step
      by (rule conjI [OF n(1)], rule exI [of _ "?call # new"]) (simp add: n c l Some)
  qed
qed

lemma sandboxListings_getKubeletContainers:
  "filter isListPodSandbox (calls (snd (getKubeletContainers rs uid True w))) =
   filter isListPodSandbox (calls w)"
  by (simp add: getKubeletContainers_calls)

lemma sandboxListings_getPodStatus_sandboxes:
  "filter isListPodSandbox (calls (snd (getPodStatus_sandboxes rs name xs w))) =
     filter isListPodSandbox (calls w)"
proof (induction xs arbitrary: w)
  case Nil
  then show ?case by simp
next
  case (Cons x xs)
  let ?r = "getPodSandboxStatus rs (Container.Id x)
              (klog_V_Infof 2 ''Sandbox ID: %s'' [ArgStr (Container.Id x)] w)"
  have c: "filter isListPodSandbox (calls (snd ?r)) = filter isListPodSandbox (calls w)"
    by (simp add: getPodSandboxStatus_world)
  show ?case
  proof (cases "fst ?r")
    case (Inl p)
    with c show ?thesis by (simp add: case_prod_beta)
  next
    case (Inr e)
    with c show ?thesis by (cases e) (simp_all add: case_prod_beta Cons.IH)
  qed
qed

lemma sandboxListings_getPodStatus_containers:
  "filter isListPodSandbox (calls (snd (getPodStatus_containers rs xs w))) =
     filter isListPodSandbox (calls w)"
proof (induction xs arbitrary: w)
  case Nil
  then show ?case by simp
next
  case (Cons x xs)
  let ?r = "getContainerStatus rs (Container.Id x)
              (klog_V_Infof 2 ''Container ID: %s'' [ArgStr (Container.Id x)] w)"
  have c: "filter isListPodSandbox (calls (snd ?r)) = filter isListPodSandbox (calls w)"
    by (simp add: getContainerStatus_world)
  show ?case
  proof (cases "fst ?r")
    case (Inl p)
    with c show ?thesis by (simp add: case_prod_beta)
  next
    case (Inr e)
    with c show ?thesis by (cases e) (simp_all add: case_prod_beta Cons.IH)
  qed
qed

lemma priv_getPodStatus_never_lists_sandboxes:
  "filter isListPodSandbox (calls (snd (priv_getPodStatus rs uid name namespace w))) =
   filter isListPodSandbox (calls w)"
proof -
  let ?w0 = "klog_V_Infof 2 ''Pod ID: %s, Name: %s, Namespace: %s\<newline>''
               [ArgStr uid, ArgStr name, ArgStr namespace] w"
  obtain sandboxes e1 w1 where
    l1: "getKubeletContainers rs uid True ?w0 = ((sandboxes, e1), w1)"
    by (metis prod.exhaust)
  obtain p2 w2 where
    l2: "(if length sandboxes \<noteq> 0 then getPodStatus_sandboxes rs name sandboxes w1
          else (None, w1)) = (p2, w2)"
    by (metis prod.exhaust)
  obtain containers e3 w3 where
    l3: "getKubeletContainers rs uid True w2 = ((containers, e3), w3)"
    by (metis prod.exhaust)
  obtain p4 w4 where
    l4: "(if length containers \<noteq> 0 then getPodStatus_containers rs containers w3
          else (None, w3)) = (p4, w4)"
    by (metis prod.exhaust)
  have f1: "filter isListPodSandbox (calls w1) = filter isListPodSandbox (calls w)"
    using sandboxListings_getKubeletContainers [of rs uid ?w0] by (simp add: l1)
  have f2: "filter isListPodSandbox (calls w2) = filter isListPodSandbox (calls w1)"
    using sandboxListings_getPodStatus_sandboxes [of rs name sandboxes w1] l2
    by (auto split: if_splits)
  have f3: "filter isListPodSandbox (calls w3) = filter isListPodSandbox (calls w2)"
    using sandboxListings_getKubeletContainers [of rs uid w2] by (simp add: l3)
  have f4: "filter isListPodSandbox (calls w4) = filter isListPodSandbox (calls w3)"
    using sandboxListings_getPodStatus_containers [of rs containers w3] l4
    by (auto split: if_splits)
  show ?thesis
    by (cases e1; cases p2; cases e3; cases p4)
       (simp_all only: priv_getPodStatus_def l1 l2 l3 l4 prod.case option.case snd_conv
          f1 f2 f3 f4)
qed

lemmas label_defs =
  KubernetesPodUIDLabel_def KubernetesPodNameLabel_def KubernetesPodNamespaceLabel_def
  KubernetesContainerNameLabel_def

lemmas sample_defs =
  sandboxes0_def containers0_def sandbox_nginx_def sandbox_legacy_def container_web_def
  container_redis_def container_legacy_def container_bare_def container_sidecar_def

lemma statusBodies_fakeService:
  "statusBodies (fakeService S C alive)"
  by (simp add: statusBodies_def fakeService_def fakeClient_def split: option.splits)

lemma fake_getKubeletSandboxs:
  "fst (getKubeletSandboxs (fakeService S C alive) '''' True w) =
     (if alive (runtime w) then (S, None) else ([], Some (Error ''transport is closing'')))"
  "runtime (snd (getKubeletSandboxs (fakeService S C alive) '''' True w)) = Suc (runtime w)"
  by (simp_all add: getKubeletSandboxs_def fakeService_def fakeClient_def rpc_def Let_def)

lemma fake_getKubeletContainers:
  "fst (getKubeletContainers (fakeService S C alive) uid True w) =
     (if alive (runtime w)
      then (filter (\<lambda>x. ContainerFilter.LabelSelector (containerFilterFor uid) \<subseteq>\<^sub>m
                          Container.Labels x) C, None)
      else ([], Some (Error ''transport is closing'')))"
  "runtime (snd (getKubeletContainers (fakeService S C alive) uid True w)) = Suc (runtime w)"
  by (simp_all add: getKubeletContainers_filter fakeService_def fakeClient_def rpc_def)

lemma fake_lists:
  "getKubeletSandboxs (fakeService S C (\<lambda>n. True)) '''' True w =
     ((S, None), snd (getKubeletSandboxs (fakeService S C (\<lambda>n. True)) '''' True w))"
  "getKubeletContainers (fakeService S C (\<lambda>n. True)) '''' True w =
     ((C, None), snd (getKubeletContainers (fakeService S C (\<lambda>n. True)) '''' True w))"
  by (simp_all add: prod_eq_iff fake_getKubeletSandboxs fake_getKubeletContainers
        containerFilterFor_def)

lemma priv_getPods_success_ex:
  assumes "getKubeletSandboxs rs '''' True w = ((S, None), w1)"
    and "getKubeletContainers rs '''' True (snd (getPods_sandboxes S Map.empty w1)) = ((C, None), w3)"
  shows "\<exists>result w'. priv_getPods rs w ((result, None), w')"
proof -
  obtain vs where "range_values (aggregated S C) vs"
    using range_values_exists [OF aggregated_finite] by blast
  then show ?thesis
    by (auto simp: priv_getPods_success [OF assms])
qed

subsection \<open>The example runtime\<close>

lemma aggregated_sample:
  "aggregated sandboxes0 containers0 =
     [''p1'' \<mapsto> \<lparr>ID = ''p1'', Name = ''nginx'', Namespace = ''default''\<rparr>,
      ''p2'' \<mapsto> \<lparr>ID = ''p2'', Name = ''redis'', Namespace = ''default''\<rparr>]"
  by (simp add: aggregated_def sample_defs label_defs label_or_empty_def Let_def
        getContainerInfoFromLabels_fst case_prod_beta)

lemma range_values_sample:
  "range_values (aggregated sandboxes0 containers0) pods0"
  unfolding range_values_def aggregated_sample pods0_def
  by (rule exI [of _ "[''p1'', ''p2'']"]) auto

lemma priv_getPods_sample:
  "\<exists>w'. priv_getPods (fakeService sandboxes0 containers0 (\<lambda>n. True)) world0
          ((pods0, None), w')"
  using range_values_sample
  by (auto simp: priv_getPods_success
      [OF fake_lists(1) [of sandboxes0 containers0 world0] fake_lists(2) [of sandboxes0 containers0]])

lemma aggregated_bare:
  "aggregated [] [container_bare, container_bare2] =
     ['''' \<mapsto> \<lparr>ID = '''', Name = '''', Namespace = ''''\<rparr>]"
  by (simp add: aggregated_def sample_defs container_bare2_def label_or_empty_def
        getContainerInfoFromLabels_fst case_prod_beta)

lemma priv_getPods_bare:
  "\<exists>w'. priv_getPods (fakeService [] [container_bare, container_bare2] (\<lambda>n. True)) world0
          (([\<lparr>ID = '''', Name = '''', Namespace = ''''\<rparr>], None), w')"
proof -
  have "range_values (aggregated [] [container_bare, container_bare2])
          [\<lparr>ID = '''', Name = '''', Namespace = ''''\<rparr>]"
    unfolding range_values_def aggregated_bare
    by (rule exI [of _ "['''']"]) auto
  then show ?thesis
    by (auto simp: priv_getPods_success
        [OF fake_lists(1) [of "[]" "[container_bare, container_bare2]" world0]
            fake_lists(2) [of "[]" "[container_bare, container_bare2]"]])
qed

lemma containers0_renamed_same:
  "list_all2 sameButMetadataContents containers0 containers0_renamed"
  by (simp add: containers0_renamed_def sample_defs sameButMetadataContents_def)

lemma fake_list_p1:
  "getKubeletContainers (fakeService sandboxes0 containers0 (\<lambda>n. True)) ''p1'' True w =
     (([container_web], None),
      snd (getKubeletContainers (fakeService sandboxes0 containers0 (\<lambda>n. True)) ''p1'' True w))"
  by (simp add: prod_eq_iff fake_getKubeletContainers containerFilterFor_def sample_defs
        label_defs map_le_def)

section \<open>The claims\<close>

text \<open>
  In the statements about \<open>_getPods\<close>, "the sandbox listing is \<open>S\<close>" reads
  \<open>getKubeletSandboxs rs '''' True w = ((S, None), w1)\<close>, and "the container listing is
  \<open>C\<close>" reads the same of \<open>getKubeletContainers\<close> in the world the sandbox loop
  leaves, \<open>snd (getPods_sandboxes S Map.empty w1)\<close>.
\<close>

subsection \<open>C1: one pod per pod UID\<close>

text \<open>
  Claim C1. When both listings succeed, with sandboxes \<open>S\<close> and containers \<open>C\<close>,
  \<open>_getPods\<close> returns a pod list and no error; and whatever list it returns, no two of
  its pods share an ID, and its IDs are exactly the pod UIDs of the metadata of the
  sandboxes of \<open>S\<close> that have metadata together with the label-derived pod UIDs of the
  containers of \<open>C\<close> that have metadata.
\<close>

theorem getPods_one_pod_per_uid:
  assumes "getKubeletSandboxs rs '''' True w = ((S, None), w1)"
    and "getKubeletContainers rs '''' True (snd (getPods_sandboxes S Map.empty w1)) = ((C, None), w3)"
  shows "(\<exists>result w'. priv_getPods rs w ((result, None), w')) \<and>
         (\<forall>result err w'. priv_getPods rs w ((result, err), w') \<longrightarrow>
            err = None \<and> distinct (map ID result) \<and>
            set (map ID result) = set (sandboxUIDs S) \<union> set (containerUIDs C))"
proof -
  obtain vs where "range_values (aggregated S C) vs"
    using range_values_exists [OF aggregated_finite] by blast
  then have "\<exists>result w'. priv_getPods rs w ((result, None), w')"
    by (auto simp: priv_getPods_success [OF assms])
  moreover have "err = None \<and> distinct (map ID result) \<and>
      set (map ID result) = set (sandboxUIDs S) \<union> set (containerUIDs C)"
    if "priv_getPods rs w ((result, err), w')" for result err w'
  proof -
    from that have e: "err = None" and r: "range_values (aggregated S C) result"
      by (auto simp: priv_getPods_success [OF assms])
    from range_values_keyed(1,2) [OF aggregated_keyed r] e show ?thesis
      by (simp add: aggregated_dom)
  qed
  ultimately show ?thesis by blast
qed

theorem getPods_one_pod_per_uid_witness:
  "\<exists>w'. priv_getPods (fakeService sandboxes0 containers0 (\<lambda>n. True)) world0
           ((pods0, None), w') \<and>
     distinct (map ID pods0) \<and>
     set (map ID pods0) = set (sandboxUIDs sandboxes0) \<union> set (containerUIDs containers0) \<and>
     set (sandboxUIDs sandboxes0) \<union> set (containerUIDs containers0) = {''p1'', ''p2''}"
proof -
  let ?rs = "fakeService sandboxes0 containers0 (\<lambda>n. True)"
  note th = getPods_one_pod_per_uid
    [OF fake_lists(1) [of sandboxes0 containers0 world0] fake_lists(2) [of sandboxes0 containers0]]
  have uids: "set (sandboxUIDs sandboxes0) \<union> set (containerUIDs containers0) = {''p1'', ''p2''}"
    by (auto simp: sample_defs label_defs label_or_empty_def)
  from priv_getPods_sample obtain w' where run: "priv_getPods ?rs world0 ((pods0, None), w')"
    by blast
  with th have "distinct (map ID pods0) \<and>
      set (map ID pods0) = set (sandboxUIDs sandboxes0) \<union> set (containerUIDs containers0)"
    by blast
  with run uids show ?thesis by blast
qed

subsection \<open>C2: the sandbox seeds the pod\<close>

text \<open>
  Claim C2. When both listings succeed and a pod UID \<open>u\<close> appears in the metadata of a
  sandbox, the returned list holds the pod of ID \<open>u\<close> with the name and namespace of
  the metadata of the first such sandbox of the listing, and every returned pod of ID
  \<open>u\<close> has that name and namespace. This holds for every container listing, so also
  when the labels of a container name \<open>u\<close>: label-derived data do not replace the
  entry the sandbox has seeded.
\<close>

theorem getPods_sandbox_precedence:
  assumes "getKubeletSandboxs rs '''' True w = ((S, None), w1)"
    and "getKubeletContainers rs '''' True (snd (getPods_sandboxes S Map.empty w1)) = ((C, None), w3)"
    and "priv_getPods rs w ((result, err), w')"
    and "u \<in> set (sandboxUIDs S)"
  shows "\<exists>md. firstSandboxOf u S = Some md \<and>
           \<lparr>ID = u, Name = PodSandboxMetadata.Name md,
             Namespace = PodSandboxMetadata.Namespace md\<rparr> \<in> set result \<and>
           (\<forall>p \<in> set result. ID p = u \<longrightarrow>
              Name p = PodSandboxMetadata.Name md \<and>
              Namespace p = PodSandboxMetadata.Namespace md)"
proof -
  from assms(4) obtain md where first: "firstSandboxOf u S = Some md"
    using firstSandboxOf_mem by blast
  let ?p = "\<lparr>ID = u, Name = PodSandboxMetadata.Name md,
             Namespace = PodSandboxMetadata.Namespace md\<rparr>"
  from assms(3) have r: "range_values (aggregated S C) result"
    by (auto simp: priv_getPods_success [OF assms(1,2)])
  have m: "aggregated S C u = Some ?p"
    using first by (rule aggregated_sandbox_first)
  from range_values_mem [OF r m] have "?p \<in> set result" .
  moreover have "Name p = PodSandboxMetadata.Name md \<and> Namespace p = PodSandboxMetadata.Namespace md"
    if "p \<in> set result" "ID p = u" for p
  proof -
    from range_values_keyed(3) [OF aggregated_keyed r that(1)] that(2) m
    have "p = ?p" by simp
    then show ?thesis by simp
  qed
  ultimately show ?thesis using first by blast
qed

theorem getPods_sandbox_precedence_witness:
  "\<exists>w'. priv_getPods (fakeService sandboxes0 containers0 (\<lambda>n. True)) world0
           ((pods0, None), w') \<and>
     ''p1'' \<in> set (sandboxUIDs sandboxes0) \<and>
     ''p1'' \<in> set (containerUIDs containers0) \<and>
     label_or_empty (Container.Labels container_web) KubernetesPodUIDLabel = ''p1'' \<and>
     label_or_empty (Container.Labels container_web) KubernetesPodNameLabel = ''relabelled'' \<and>
     label_or_empty (Container.Labels container_web) KubernetesPodNamespaceLabel = ''other'' \<and>
     \<lparr>ID = ''p1'', Name = ''nginx'', Namespace = ''default''\<rparr> \<in> set pods0 \<and>
     length (filter (\<lambda>p. ID p = ''p1'') pods0) = 1"
proof -
  let ?rs = "fakeService sandboxes0 containers0 (\<lambda>n. True)"
  let ?md = "\<lparr>PodSandboxMetadata.Name = ''nginx'', Uid = ''p1'',
              PodSandboxMetadata.Namespace = ''default'', PodSandboxMetadata.Attempt = 0\<rparr>"
  from priv_getPods_sample obtain w' where run: "priv_getPods ?rs world0 ((pods0, None), w')"
    by blast
  have sandbox: "''p1'' \<in> set (sandboxUIDs sandboxes0)"
    and first: "firstSandboxOf ''p1'' sandboxes0 = Some ?md"
    by (simp_all add: sample_defs)
  from getPods_sandbox_precedence
    [OF fake_lists(1) [of sandboxes0 containers0 world0] fake_lists(2) [of sandboxes0 containers0]
        run sandbox] first
  have "\<lparr>ID = ''p1'', Name = ''nginx'', Namespace = ''default''\<rparr> \<in> set pods0"
    by simp
  moreover have "''p1'' \<in> set (containerUIDs containers0)"
    by (simp add: sample_defs label_defs label_or_empty_def)
  moreover have "label_or_empty (Container.Labels container_web) KubernetesPodUIDLabel = ''p1''"
    and "label_or_empty (Container.Labels container_web) KubernetesPodNameLabel = ''relabelled''"
    and "label_or_empty (Container.Labels container_web) KubernetesPodNamespaceLabel = ''other''"
    by (simp_all add: sample_defs label_defs label_or_empty_def)
  moreover have "length (filter (\<lambda>p. ID p = ''p1'') pods0) = 1"
    by (simp add: pods0_def)
  ultimately show ?thesis using run sandbox by blast
qed

subsection \<open>C3: the two listings of the status reporter\<close>

text \<open>
  Claim C3 says that \<open>_getPodStatus\<close> lists the sandboxes of the pod and then its
  containers. The code calls \<open>getKubeletContainers\<close> both times (lines 157 and 173);
  by \<open>priv_getPodStatus_never_lists_sandboxes\<close> it never requests a sandbox listing.
  Here, at a pod with one sandbox \<open>s1\<close> and one container \<open>c1\<close>, the RPCs of
  \<open>_getPodStatus\<close> are two container listings, a sandbox-status fetch for the
  container ID \<open>c1\<close>, which fails, and a container-status fetch for \<open>c1\<close>: the
  sandbox \<open>s1\<close> is neither listed nor asked for.
\<close>

theorem getPodStatus_lists_containers_twice:
  "calls (snd (priv_getPodStatus (fakeService sandboxes0 containers0 (\<lambda>n. True))
                 ''p1'' ''nginx'' ''default'' world0)) =
     [(ListContainersRequest (containerFilterFor ''p1''), None),
      (PodSandboxStatusRequest ''c1'', Some (Error ''sandbox not found'')),
      (ListContainersRequest (containerFilterFor ''p1''), None),
      (ContainerStatusRequest ''c1'', None)]"
  by (simp add: priv_getPodStatus_def getKubeletContainers_filter rpc_def fakeService_def
        fakeClient_def getPodSandboxStatus_def getContainerStatus_def error_of_def world0_def
        containerFilterFor_def sample_defs label_defs map_le_def)

subsection \<open>C4: a failed status fetch does not stop the report\<close>

text \<open>
  Claim C4, for a runtime that answers every status request with an error or with a response
  that carries a status (\<open>statusBodies\<close>). When the two filtered listings of
  \<open>_getPodStatus\<close> succeed, the first with the entities \<open>sandboxes\<close> and the second
  with \<open>containers\<close>, the call returns no error, whichever status fetches fail. Its RPCs
  are, in this order, the first listing, one sandbox-status fetch for every entity of
  \<open>sandboxes\<close>, the second listing, and one container-status fetch for every entity of
  \<open>containers\<close>; and what it logs as errors is one entry for each status fetch that
  failed, in the order of the fetches.
\<close>

theorem getPodStatus_tolerates_status_failures:
  assumes "statusBodies rs"
    and "w0 = klog_V_Infof 2 ''Pod ID: %s, Name: %s, Namespace: %s\<newline>''
                  [ArgStr uid, ArgStr name, ArgStr namespace] w"
    and "getKubeletContainers rs uid True w0 = ((sandboxes, None), w1)"
    and "getKubeletContainers rs uid True (snd (getPodStatus_sandboxes rs name sandboxes w1)) =
           ((containers, None), w3)"
  shows "fst (priv_getPodStatus rs uid name namespace w) = Inr None \<and>
         (\<exists>new. calls (snd (priv_getPodStatus rs uid name namespace w)) = calls w @ new \<and>
            map fst new =
              [ListContainersRequest (containerFilterFor uid)] @
              map (\<lambda>x. PodSandboxStatusRequest (Container.Id x)) sandboxes @
              [ListContainersRequest (containerFilterFor uid)] @
              map (\<lambda>x. ContainerStatusRequest (Container.Id x)) containers \<and>
            errorEntries (klog (snd (priv_getPodStatus rs uid name namespace w))) =
              errorEntries (klog w) @ concat (map (statusFailureLog name) new))"
proof -
  let ?L = "ListContainersRequest (containerFilterFor uid)"
  obtain p2 w2 where r2: "getPodStatus_sandboxes rs name sandboxes w1 = (p2, w2)"
    by (cases "getPodStatus_sandboxes rs name sandboxes w1")
  from getPodStatus_sandboxes_trace [OF assms(1), of name sandboxes w1]
  have p2: "p2 = None"
    and ex2: "\<exists>new. calls w2 = calls w1 @ new \<and>
       map fst new = map (\<lambda>x. PodSandboxStatusRequest (Container.Id x)) sandboxes \<and>
       errorEntries (klog w2) = errorEntries (klog w1) @ concat (map (statusFailureLog name) new)"
    by (simp_all add: r2)
  from ex2 obtain n2 where n2: "calls w2 = calls w1 @ n2"
      "map fst n2 = map (\<lambda>x. PodSandboxStatusRequest (Container.Id x)) sandboxes"
      "errorEntries (klog w2) = errorEntries (klog w1) @ concat (map (statusFailureLog name) n2)"
    by blast
  have a4: "getKubeletContainers rs uid True w2 = ((containers, None), w3)"
    using assms(4) by (simp add: r2)
  obtain p4 w4 where r4: "getPodStatus_containers rs containers w3 = (p4, w4)"
    by (cases "getPodStatus_containers rs containers w3")
  from getPodStatus_containers_trace [OF assms(1), of containers w3 name]
  have p4: "p4 = None"
    and ex4: "\<exists>new. calls w4 = calls w3 @ new \<and>
       map fst new = map (\<lambda>x. ContainerStatusRequest (Container.Id x)) containers \<and>
       errorEntries (klog w4) = errorEntries (klog w3) @ concat (map (statusFailureLog name) new)"
    by (simp_all add: r4)
  from ex4 obtain n4 where n4: "calls w4 = calls w3 @ n4"
      "map fst n4 = map (\<lambda>x. ContainerStatusRequest (Container.Id x)) containers"
      "errorEntries (klog w4) = errorEntries (klog w3) @ concat (map (statusFailureLog name) n4)"
    by blast
  have g2: "(if length sandboxes \<noteq> 0 then getPodStatus_sandboxes rs name sandboxes w1
             else (None, w1)) = (None, w2)"
    using r2 p2 by auto
  have g4: "(if length containers \<noteq> 0 then getPodStatus_containers rs containers w3
             else (None, w3)) = (None, w4)"
    using r4 p4 by auto
  have out: "priv_getPodStatus rs uid name namespace w = (Inr None, w4)"
    by (simp only: priv_getPodStatus_def assms(2) [symmetric] assms(3) g2 a4 g4
          prod.case option.case)
  have c1: "calls w1 = calls w @ [(?L, None)]" and k1: "klog w1 = klog w0"
    using getKubeletContainers_ok [OF assms(3)] by (simp_all add: assms(2))
  have c3: "calls w3 = calls w2 @ [(?L, None)]" and k3: "klog w3 = klog w2"
    using getKubeletContainers_ok [OF a4] by simp_all
  let ?new = "(?L, None) # n2 @ (?L, None) # n4"
  have "calls w4 = calls w @ ?new"
    by (simp add: n4(1) c3 n2(1) c1)
  moreover have "map fst ?new = [?L] @
              map (\<lambda>x. PodSandboxStatusRequest (Container.Id x)) sandboxes @ [?L] @
              map (\<lambda>x. ContainerStatusRequest (Container.Id x)) containers"
    by (simp add: n2(2) n4(2))
  moreover have "errorEntries (klog w4) =
      errorEntries (klog w) @ concat (map (statusFailureLog name) ?new)"
    by (simp add: n4(3) k3 n2(3) k1 assms(2))
  ultimately show ?thesis
    unfolding out by (intro conjI exI [of _ ?new]) simp_all
qed

theorem getPodStatus_tolerates_status_failures_witness:
  "statusBodies (fakeService sandboxes0 containers0 (\<lambda>n. True)) \<and>
   fst (getPodSandboxStatus (fakeService sandboxes0 containers0 (\<lambda>n. True)) ''c1'' world0) =
     Inr (Some (Error ''sandbox not found'')) \<and>
   fst (priv_getPodStatus (fakeService sandboxes0 containers0 (\<lambda>n. True))
          ''p1'' ''nginx'' ''default'' world0) = Inr None \<and>
   (\<exists>new. calls (snd (priv_getPodStatus (fakeService sandboxes0 containers0 (\<lambda>n. True))
                        ''p1'' ''nginx'' ''default'' world0)) = new \<and>
      map fst new =
        [ListContainersRequest (containerFilterFor ''p1''), PodSandboxStatusRequest ''c1'',
         ListContainersRequest (containerFilterFor ''p1''), ContainerStatusRequest ''c1''] \<and>
      errorEntries (klog (snd (priv_getPodStatus (fakeService sandboxes0 containers0 (\<lambda>n. True))
                                 ''p1'' ''nginx'' ''default'' world0))) =
        concat (map (statusFailureLog ''nginx'') new)) \<and>
   errorEntries (klog (snd (priv_getPodStatus (fakeService sandboxes0 containers0 (\<lambda>n. True))
                              ''p1'' ''nginx'' ''default'' world0))) =
     [(ERROR, ''PodSandboxStatus of sandbox %q for pod %q error: %v'',
       [ArgStr ''c1'', ArgStr ''nginx'', ArgErr (Error ''sandbox not found'')])]"
proof -
  let ?rs = "fakeService sandboxes0 containers0 (\<lambda>n. True)"
  have bodies: "statusBodies ?rs"
    by (rule statusBodies_fakeService)
  have fails: "fst (getPodSandboxStatus ?rs ''c1'' world0) =
      Inr (Some (Error ''sandbox not found''))"
    by (simp add: getPodSandboxStatus_def rpc_def fakeService_def fakeClient_def sample_defs)
  have logged: "errorEntries (klog (snd (priv_getPodStatus ?rs ''p1'' ''nginx'' ''default'' world0))) =
     [(ERROR, ''PodSandboxStatus of sandbox %q for pod %q error: %v'',
       [ArgStr ''c1'', ArgStr ''nginx'', ArgErr (Error ''sandbox not found'')])]"
    by (simp add: priv_getPodStatus_def getKubeletContainers_filter rpc_def fakeService_def
          fakeClient_def getPodSandboxStatus_def getContainerStatus_def error_of_def world0_def
          containerFilterFor_def sample_defs label_defs map_le_def)
  from getPodStatus_tolerates_status_failures
    [where rs = ?rs and uid = "''p1''" and name = "''nginx''" and namespace = "''default''"
       and w = world0, OF bodies refl fake_list_p1 fake_list_p1]
  have "fst (priv_getPodStatus ?rs ''p1'' ''nginx'' ''default'' world0) = Inr None \<and>
   (\<exists>new. calls (snd (priv_getPodStatus ?rs ''p1'' ''nginx'' ''default'' world0)) = new \<and>
      map fst new =
        [ListContainersRequest (containerFilterFor ''p1''), PodSandboxStatusRequest ''c1'',
         ListContainersRequest (containerFilterFor ''p1''), ContainerStatusRequest ''c1''] \<and>
      errorEntries (klog (snd (priv_getPodStatus ?rs ''p1'' ''nginx'' ''default'' world0))) =
        concat (map (statusFailureLog ''nginx'') new))"
    by (simp add: sample_defs world0_def)
  with bodies fails logged show ?thesis by blast
qed

text \<open>
  Without the proviso the claim fails. \<open>getContainerStatus\<close> and
  \<open>getPodSandboxStatus\<close> read the fields of \<open>resp.Status\<close> with no nil test (lines
  201-202 and 219-220), so a response without status makes the fetch panic. Here the pod
  \<open>p1\<close> has the containers \<open>c1\<close> and \<open>c5\<close>, and both listings succeed with these
  two. The two sandbox-status fetches fail and are logged; the runtime then answers the
  container-status fetch for \<open>c1\<close> with a response that has no status and no error.
  \<open>_getPodStatus\<close> panics: it returns no value, and of the four status fetches it never
  attempts the one for \<open>c5\<close>.
\<close>

theorem getPodStatus_panics_without_status:
  "fst (getKubeletContainers (emptyStatusService [sandbox_nginx] [container_web, container_sidecar])
          ''p1'' True world0) = ([container_web, container_sidecar], None) \<and>
   fst (getPodSandboxStatus (emptyStatusService [sandbox_nginx] [container_web, container_sidecar])
          ''c1'' world0) = Inr (Some (Error ''sandbox not found'')) \<and>
   fst (priv_getPodStatus (emptyStatusService [sandbox_nginx] [container_web, container_sidecar])
          ''p1'' ''nginx'' ''default'' world0) = Inl NilPointerDereference \<and>
   calls (snd (priv_getPodStatus (emptyStatusService [sandbox_nginx] [container_web, container_sidecar])
                 ''p1'' ''nginx'' ''default'' world0)) =
     [(ListContainersRequest (containerFilterFor ''p1''), None),
      (PodSandboxStatusRequest ''c1'', Some (Error ''sandbox not found'')),
      (PodSandboxStatusRequest ''c5'', Some (Error ''sandbox not found'')),
      (ListContainersRequest (containerFilterFor ''p1''), None),
      (ContainerStatusRequest ''c1'', None)]"
  by (simp add: priv_getPodStatus_def getKubeletContainers_filter rpc_def emptyStatusService_def
        fakeClient_def getPodSandboxStatus_def getContainerStatus_def error_of_def world0_def
        containerFilterFor_def sample_defs label_defs map_le_def)

subsection \<open>C5: the label extractor\<close>

text \<open>
  Claim C5. For every label map, \<open>getContainerInfoFromLabels\<close> returns the record whose
  four fields are the values of the four well-known labels, each the empty string when its
  label is absent. The function has no failing branch; it issues no RPC and leaves the
  runtime as it was (it only logs).
\<close>

theorem getContainerInfoFromLabels_total:
  "fst (getContainerInfoFromLabels labels w) =
     \<lparr>ContainerName = (case labels KubernetesContainerNameLabel of Some v \<Rightarrow> v | None \<Rightarrow> ''''),
      PodName = (case labels KubernetesPodNameLabel of Some v \<Rightarrow> v | None \<Rightarrow> ''''),
      PodNamespace = (case labels KubernetesPodNamespaceLabel of Some v \<Rightarrow> v | None \<Rightarrow> ''''),
      PodUID = (case labels KubernetesPodUIDLabel of Some v \<Rightarrow> v | None \<Rightarrow> '''')\<rparr> \<and>
   runtime (snd (getContainerInfoFromLabels labels w)) = runtime w \<and>
   calls (snd (getContainerInfoFromLabels labels w)) = calls w"
  by (simp add: getContainerInfoFromLabels_fst label_or_empty_def)

subsection \<open>C6: a listing that fails\<close>

text \<open>
  Claim C6. If the sandbox listing fails with the error \<open>e\<close>, the only thing
  \<open>_getPods\<close> returns is the empty (nil) pod list with \<open>e\<close>; and so it is if the
  sandbox listing succeeds and the container listing fails with \<open>e\<close>.
\<close>

theorem getPods_listing_failure:
  "(getKubeletSandboxs rs '''' True w = ((S, Some e), w1) \<longrightarrow>
      (priv_getPods rs w out \<longleftrightarrow> out = (([], Some e), w1))) \<and>
   (getKubeletSandboxs rs '''' True w = ((S, None), w1) \<and>
    getKubeletContainers rs '''' True (snd (getPods_sandboxes S Map.empty w1)) = ((C, Some e), w3) \<longrightarrow>
      (priv_getPods rs w out \<longleftrightarrow> out = (([], Some e), w3)))"
  by (auto simp: priv_getPods_def case_prod_beta)

theorem getPods_listing_failure_witness:
  "priv_getPods (fakeService sandboxes0 containers0 (\<lambda>n. False)) world0
     (([], Some (Error ''transport is closing'')),
      snd (getKubeletSandboxs (fakeService sandboxes0 containers0 (\<lambda>n. False)) '''' True world0)) \<and>
   priv_getPods (fakeService sandboxes0 containers0 (\<lambda>n. n < 1)) world0
     (([], Some (Error ''transport is closing'')),
      snd (getKubeletContainers (fakeService sandboxes0 containers0 (\<lambda>n. n < 1)) '''' True
             (snd (getPods_sandboxes sandboxes0 Map.empty
                (snd (getKubeletSandboxs (fakeService sandboxes0 containers0 (\<lambda>n. n < 1))
                        '''' True world0))))))"
proof -
  let ?down = "fakeService sandboxes0 containers0 (\<lambda>n. False)"
  let ?flaky = "fakeService sandboxes0 containers0 (\<lambda>n. n < 1)"
  let ?e = "Error ''transport is closing''"
  let ?wa = "snd (getKubeletSandboxs ?down '''' True world0)"
  let ?va = "snd (getKubeletSandboxs ?flaky '''' True world0)"
  let ?vc = "snd (getKubeletContainers ?flaky '''' True
                    (snd (getPods_sandboxes sandboxes0 Map.empty ?va)))"
  have s: "getKubeletSandboxs ?down '''' True world0 = (([], Some ?e), ?wa)"
    by (simp add: prod_eq_iff fake_getKubeletSandboxs)
  have s': "getKubeletSandboxs ?flaky '''' True world0 = ((sandboxes0, None), ?va)"
    by (simp add: prod_eq_iff fake_getKubeletSandboxs world0_def)
  have c': "getKubeletContainers ?flaky '''' True
              (snd (getPods_sandboxes sandboxes0 Map.empty ?va)) = (([], Some ?e), ?vc)"
    by (simp add: prod_eq_iff fake_getKubeletContainers fake_getKubeletSandboxs world0_def)
  from getPods_listing_failure
    [where rs = ?down and w = world0 and S = "[]" and e = ?e and ?w1.0 = ?wa
       and out = "(([], Some ?e), ?wa)"] s
  have "priv_getPods ?down world0 (([], Some ?e), ?wa)"
    by simp
  moreover from getPods_listing_failure
    [where rs = ?flaky and w = world0 and S = sandboxes0 and e = ?e and ?w1.0 = ?va
       and C = "[]" and ?w3.0 = ?vc and out = "(([], Some ?e), ?vc)"] s' c'
  have "priv_getPods ?flaky world0 (([], Some ?e), ?vc)"
    by simp
  ultimately show ?thesis by simp
qed

subsection \<open>C7: entries without metadata\<close>

text \<open>
  Claim C7. Take a run of \<open>_getPods\<close> whose listings are \<open>S\<close> and \<open>C\<close>, and a run
  (of any runtime, in any world) whose listings are \<open>S\<close> and \<open>C\<close> without their
  entries that have no metadata. Then the two runs can return exactly the same pod lists
  and errors, and the first run returns no error: the entries without metadata add nothing
  and fail nothing.
\<close>

theorem getPods_skips_missing_metadata:
  assumes "getKubeletSandboxs rs '''' True w = ((S, None), w1)"
    and "getKubeletContainers rs '''' True (snd (getPods_sandboxes S Map.empty w1)) = ((C, None), w3)"
    and "getKubeletSandboxs rs' '''' True v =
           ((filter (\<lambda>s. PodSandbox.Metadata s \<noteq> None) S, None), v1)"
    and "getKubeletContainers rs' '''' True
           (snd (getPods_sandboxes (filter (\<lambda>s. PodSandbox.Metadata s \<noteq> None) S) Map.empty v1)) =
           ((filter (\<lambda>c. Container.Metadata c \<noteq> None) C, None), v3)"
  shows "((\<exists>w'. priv_getPods rs w ((result, err), w')) \<longleftrightarrow>
          (\<exists>v'. priv_getPods rs' v ((result, err), v'))) \<and>
         (priv_getPods rs w ((result, err), w') \<longrightarrow> err = None)"
  unfolding priv_getPods_success [OF assms(1,2)] priv_getPods_success [OF assms(3,4)]
    aggregated_skip
  by auto

theorem getPods_skips_missing_metadata_witness:
  "(\<exists>w'. priv_getPods (fakeService sandboxes0 containers0 (\<lambda>n. True)) world0
            ((pods0, None), w')) \<and>
   (\<exists>v'. priv_getPods
            (fakeService (filter (\<lambda>s. PodSandbox.Metadata s \<noteq> None) sandboxes0)
               (filter (\<lambda>c. Container.Metadata c \<noteq> None) containers0) (\<lambda>n. True)) world0
            ((pods0, None), v')) \<and>
   filter (\<lambda>s. PodSandbox.Metadata s \<noteq> None) sandboxes0 = [sandbox_nginx] \<and>
   filter (\<lambda>c. Container.Metadata c \<noteq> None) containers0 = [container_web, container_redis]"
proof -
  let ?S' = "filter (\<lambda>s. PodSandbox.Metadata s \<noteq> None) sandboxes0"
  let ?C' = "filter (\<lambda>c. Container.Metadata c \<noteq> None) containers0"
  note th = getPods_skips_missing_metadata
    [OF fake_lists(1) [of sandboxes0 containers0 world0] fake_lists(2) [of sandboxes0 containers0]
        fake_lists(1) [of ?S' ?C' world0] fake_lists(2) [of ?S' ?C'],
     of pods0 None]
  from th priv_getPods_sample
  have "\<exists>v'. priv_getPods (fakeService ?S' ?C' (\<lambda>n. True)) world0 ((pods0, None), v')"
    by blast
  moreover have "?S' = [sandbox_nginx]" and "?C' = [container_web, container_redis]"
    by (simp_all add: sample_defs)
  ultimately show ?thesis using priv_getPods_sample by simp
qed

subsection \<open>C8: a container without labels\<close>

text \<open>
  Claim C8. For a container \<open>c\<close> that has metadata and an empty label map, the label
  extractor returns four empty strings; the container loop, at \<open>c\<close>, stores the pod
  with empty ID, name and namespace under the key \<open>''''\<close> unless that key is already in
  the map, and goes on; and when \<open>c\<close> is in the container listing of a run that
  succeeds, exactly one pod of the returned list has the empty ID.
\<close>

theorem getPods_unlabelled_container:
  assumes "Container.Metadata c \<noteq> None" and "Container.Labels c = Map.empty"
  shows "fst (getContainerInfoFromLabels (Container.Labels c) v) =
           \<lparr>ContainerName = '''', PodName = '''', PodNamespace = '''', PodUID = ''''\<rparr> \<and>
         getPods_containers (c # cs) pods v =
           getPods_containers cs
             (if pods '''' = None then pods('''' \<mapsto> \<lparr>ID = '''', Name = '''', Namespace = ''''\<rparr>)
              else pods)
             (snd (getContainerInfoFromLabels (Container.Labels c) v)) \<and>
         (getKubeletSandboxs rs '''' True w = ((S, None), w1) \<and>
          getKubeletContainers rs '''' True (snd (getPods_sandboxes S Map.empty w1)) = ((C, None), w3) \<and>
          c \<in> set C \<and> priv_getPods rs w ((result, err), w') \<longrightarrow>
            length (filter (\<lambda>p. ID p = '''') result) = 1)"
proof -
  have info: "fst (getContainerInfoFromLabels (Container.Labels c) v) =
           \<lparr>ContainerName = '''', PodName = '''', PodNamespace = '''', PodUID = ''''\<rparr>"
    by (simp add: getContainerInfoFromLabels_fst label_or_empty_def assms(2))
  from assms(1) obtain md where md: "Container.Metadata c = Some md" by auto
  have step: "getPods_containers (c # cs) pods v =
           getPods_containers cs
             (if pods '''' = None then pods('''' \<mapsto> \<lparr>ID = '''', Name = '''', Namespace = ''''\<rparr>)
              else pods)
             (snd (getContainerInfoFromLabels (Container.Labels c) v))"
    using info by (auto simp: md case_prod_beta split: option.splits)
  have one: "length (filter (\<lambda>p. ID p = '''') result) = 1"
    if l1: "getKubeletSandboxs rs '''' True w = ((S, None), w1)"
      and l2: "getKubeletContainers rs '''' True (snd (getPods_sandboxes S Map.empty w1)) = ((C, None), w3)"
      and c: "c \<in> set C" and run: "priv_getPods rs w ((result, err), w')"
  proof -
    from run have r: "range_values (aggregated S C) result"
      by (auto simp: priv_getPods_success [OF l1 l2])
    have "'''' \<in> set (containerUIDs C)"
      using containerUIDs_mem [OF c assms(1)] by (simp add: assms(2) label_or_empty_def)
    with range_values_keyed(2) [OF aggregated_keyed r]
    have "'''' \<in> set (map ID result)"
      unfolding aggregated_dom by blast
    with range_values_keyed(1) [OF aggregated_keyed r] show ?thesis
      by (rule count_distinct_key)
  qed
  from info step one show ?thesis by blast
qed

theorem getPods_unlabelled_container_witness:
  "fst (getContainerInfoFromLabels (Container.Labels container_bare) world0) =
     \<lparr>ContainerName = '''', PodName = '''', PodNamespace = '''', PodUID = ''''\<rparr> \<and>
   getPods_containers [container_bare, container_bare2] Map.empty world0 =
     getPods_containers [container_bare2] ['''' \<mapsto> \<lparr>ID = '''', Name = '''', Namespace = ''''\<rparr>]
       (snd (getContainerInfoFromLabels (Container.Labels container_bare) world0)) \<and>
   (\<exists>w'. priv_getPods (fakeService [] [container_bare, container_bare2] (\<lambda>n. True)) world0
            (([\<lparr>ID = '''', Name = '''', Namespace = ''''\<rparr>], None), w')) \<and>
   length (filter (\<lambda>p. ID p = '''') [\<lparr>ID = '''', Name = '''', Namespace = ''''\<rparr>]) = 1"
proof -
  let ?C = "[container_bare, container_bare2]"
  let ?rs = "fakeService [] ?C (\<lambda>n. True)"
  let ?p = "\<lparr>ID = '''', Name = '''', Namespace = ''''\<rparr>"
  let ?wa = "snd (getKubeletSandboxs ?rs '''' True world0)"
  let ?wc = "snd (getKubeletContainers ?rs '''' True (snd (getPods_sandboxes [] Map.empty ?wa)))"
  have md: "Container.Metadata container_bare \<noteq> None"
    and lb: "Container.Labels container_bare = Map.empty"
    by (simp_all add: sample_defs)
  from priv_getPods_bare obtain w' where run: "priv_getPods ?rs world0 (([?p], None), w')"
    by blast
  have l1: "getKubeletSandboxs ?rs '''' True world0 = (([], None), ?wa)"
    by (rule fake_lists(1))
  have l2: "getKubeletContainers ?rs '''' True (snd (getPods_sandboxes [] Map.empty ?wa)) =
      ((?C, None), ?wc)"
    by (rule fake_lists(2))
  note th = getPods_unlabelled_container [OF md lb,
    where v = world0 and cs = "[container_bare2]" and pods = Map.empty and rs = ?rs
      and w = world0 and S = "[]" and ?w1.0 = ?wa and C = ?C and ?w3.0 = ?wc
      and result = "[?p]" and err = None and w' = w']
  from th have "fst (getContainerInfoFromLabels (Container.Labels container_bare) world0) =
     \<lparr>ContainerName = '''', PodName = '''', PodNamespace = '''', PodUID = ''''\<rparr>"
    by blast
  moreover from th
  have "getPods_containers ?C Map.empty world0 =
     getPods_containers [container_bare2] ['''' \<mapsto> ?p]
       (snd (getContainerInfoFromLabels (Container.Labels container_bare) world0))"
    by simp
  moreover from th run l1 l2
  have "length (filter (\<lambda>p. ID p = '''') [?p]) = 1"
    by simp
  ultimately show ?thesis using run by blast
qed

subsection \<open>C9: only unix endpoints\<close>

text \<open>
  Claim C9. Whatever \<open>url.Parse\<close> is: for an endpoint it parses to a URL whose scheme
  is not \<open>unix\<close>, \<open>getAddressAndDialer\<close> returns the error "only support unix
  socket endpoint" with no address and no dialer, and \<open>newRuntimeServiceClient\<close>
  returns that error and no client; for an endpoint it does not parse, both return the
  parser's error, and no client; for an endpoint of scheme \<open>unix\<close>,
  \<open>getAddressAndDialer\<close> returns the path of the URL, the dialer and no error.
\<close>

theorem getAddressAndDialer_unix_only:
  "(url_Parse lib endpoint = Inr u \<and> Scheme u \<noteq> ''unix'' \<longrightarrow>
      getAddressAndDialer lib endpoint =
        ('''', None, Some (Error ''only support unix socket endpoint'')) \<and>
      fst (newRuntimeServiceClient lib endpoint connectionTimeout w) =
        (None, Some (Error ''only support unix socket endpoint''))) \<and>
   (url_Parse lib endpoint = Inl err \<longrightarrow>
      getAddressAndDialer lib endpoint = ('''', None, Some err) \<and>
      fst (newRuntimeServiceClient lib endpoint connectionTimeout w) = (None, Some err)) \<and>
   (url_Parse lib endpoint = Inr u \<and> Scheme u = ''unix'' \<longrightarrow>
      getAddressAndDialer lib endpoint = (Path u, Some (dial lib), None))"
  by (simp add: getAddressAndDialer_def newRuntimeServiceClient_def unixProtocol_def Let_def)

theorem getAddressAndDialer_unix_only_witness:
  "getAddressAndDialer library0 ''tcp://127.0.0.1:2375'' =
     ('''', None, Some (Error ''only support unix socket endpoint'')) \<and>
   fst (newRuntimeServiceClient library0 ''tcp://127.0.0.1:2375'' 120000000000 world0) =
     (None, Some (Error ''only support unix socket endpoint'')) \<and>
   getAddressAndDialer library0 ''://'' = ('''', None, Some (Error ''missing protocol scheme'')) \<and>
   fst (newRuntimeServiceClient library0 ''://'' 120000000000 world0) =
     (None, Some (Error ''missing protocol scheme'')) \<and>
   getAddressAndDialer library0 ''unix:///var/run/dockershim.sock'' =
     (''/var/run/dockershim.sock'', Some (dial library0), None)"
proof -
  have tcp: "url_Parse library0 ''tcp://127.0.0.1:2375'' =
      Inr \<lparr>Scheme = ''tcp'', Host = ''127.0.0.1:2375'', Path = ''''\<rparr>"
    and bad: "url_Parse library0 ''://'' = Inl (Error ''missing protocol scheme'')"
    and unix: "url_Parse library0 ''unix:///var/run/dockershim.sock'' =
      Inr \<lparr>Scheme = ''unix'', Host = '''', Path = ''/var/run/dockershim.sock''\<rparr>"
    by (simp_all add: library0_def parse0_def)
  from getAddressAndDialer_unix_only
      [of library0 "''tcp://127.0.0.1:2375''"
          "\<lparr>Scheme = ''tcp'', Host = ''127.0.0.1:2375'', Path = ''''\<rparr>" 120000000000 world0]
    getAddressAndDialer_unix_only
      [of library0 "''://''" _ 120000000000 world0 "Error ''missing protocol scheme''"]
    getAddressAndDialer_unix_only
      [of library0 "''unix:///var/run/dockershim.sock''"
          "\<lparr>Scheme = ''unix'', Host = '''', Path = ''/var/run/dockershim.sock''\<rparr>"]
    tcp bad unix
  show ?thesis by simp
qed

subsection \<open>C10: the contents of a container's metadata\<close>

text \<open>
  Claim C10. Take two runs of \<open>_getPods\<close> with the same sandbox listing, whose
  container listings \<open>C\<close> and \<open>C'\<close> differ, entry by entry, at most in what the
  present metadata blocks hold. Then the two runs can return exactly the same pod lists
  and errors. And a returned pod whose ID is no sandbox's pod UID has its ID, name and
  namespace from the three pod labels of one container of \<open>C\<close> that has metadata.
\<close>

theorem getPods_ignores_metadata_contents:
  assumes "getKubeletSandboxs rs '''' True w = ((S, None), w1)"
    and "getKubeletContainers rs '''' True (snd (getPods_sandboxes S Map.empty w1)) = ((C, None), w3)"
    and "getKubeletSandboxs rs' '''' True v = ((S, None), v1)"
    and "getKubeletContainers rs' '''' True (snd (getPods_sandboxes S Map.empty v1)) = ((C', None), v3)"
    and "list_all2 sameButMetadataContents C C'"
  shows "((\<exists>w'. priv_getPods rs w ((result, err), w')) \<longleftrightarrow>
          (\<exists>v'. priv_getPods rs' v ((result, err), v'))) \<and>
         (priv_getPods rs w ((result, err), w') \<and> p \<in> set result \<and>
          ID p \<notin> set (sandboxUIDs S) \<longrightarrow>
            (\<exists>c \<in> set C. Container.Metadata c \<noteq> None \<and>
               p = \<lparr>ID = label_or_empty (Container.Labels c) KubernetesPodUIDLabel,
                    Name = label_or_empty (Container.Labels c) KubernetesPodNameLabel,
                    Namespace = label_or_empty (Container.Labels c) KubernetesPodNamespaceLabel\<rparr>))"
proof -
  have same: "(\<exists>w'. priv_getPods rs w ((result, err), w')) \<longleftrightarrow>
          (\<exists>v'. priv_getPods rs' v ((result, err), v'))"
    by (auto simp: priv_getPods_success [OF assms(1,2)] priv_getPods_success [OF assms(3,4)]
                   aggregated_metadata_contents [OF assms(5)])
  have labels: "\<exists>c \<in> set C. Container.Metadata c \<noteq> None \<and>
               p = \<lparr>ID = label_or_empty (Container.Labels c) KubernetesPodUIDLabel,
                    Name = label_or_empty (Container.Labels c) KubernetesPodNameLabel,
                    Namespace = label_or_empty (Container.Labels c) KubernetesPodNamespaceLabel\<rparr>"
    if run: "priv_getPods rs w ((result, err), w')" and p: "p \<in> set result"
      and u: "ID p \<notin> set (sandboxUIDs S)"
  proof -
    from run have r: "range_values (aggregated S C) result"
      by (auto simp: priv_getPods_success [OF assms(1,2)])
    from range_values_keyed(3) [OF aggregated_keyed r p]
    have "aggregated S C (ID p) = Some p" .
    from aggregated_container_seed [OF this u] show ?thesis by metis
  qed
  from same labels show ?thesis by blast
qed

theorem getPods_ignores_metadata_contents_witness:
  "(\<exists>w'. priv_getPods (fakeService sandboxes0 containers0 (\<lambda>n. True)) world0
            ((pods0, None), w')) \<and>
   (\<exists>v'. priv_getPods (fakeService sandboxes0 containers0_renamed (\<lambda>n. True)) world0
            ((pods0, None), v')) \<and>
   list_all2 sameButMetadataContents containers0 containers0_renamed \<and>
   Container.Metadata container_redis \<noteq> Container.Metadata (containers0_renamed ! 1) \<and>
   (\<exists>c \<in> set containers0. Container.Metadata c \<noteq> None \<and>
      \<lparr>ID = ''p2'', Name = ''redis'', Namespace = ''default''\<rparr> =
        \<lparr>ID = label_or_empty (Container.Labels c) KubernetesPodUIDLabel,
         Name = label_or_empty (Container.Labels c) KubernetesPodNameLabel,
         Namespace = label_or_empty (Container.Labels c) KubernetesPodNamespaceLabel\<rparr>)"
proof -
  let ?rs = "fakeService sandboxes0 containers0 (\<lambda>n. True)"
  let ?rs' = "fakeService sandboxes0 containers0_renamed (\<lambda>n. True)"
  let ?p2 = "\<lparr>ID = ''p2'', Name = ''redis'', Namespace = ''default''\<rparr>"
  from priv_getPods_sample obtain w' where run: "priv_getPods ?rs world0 ((pods0, None), w')"
    by blast
  note th = getPods_ignores_metadata_contents
    [OF fake_lists(1) [of sandboxes0 containers0 world0] fake_lists(2) [of sandboxes0 containers0]
        fake_lists(1) [of sandboxes0 containers0_renamed world0]
        fake_lists(2) [of sandboxes0 containers0_renamed]
        containers0_renamed_same,
     of pods0 None w' ?p2]
  from th run have "\<exists>v'. priv_getPods ?rs' world0 ((pods0, None), v')"
    by blast
  moreover have "?p2 \<in> set pods0" and "ID ?p2 \<notin> set (sandboxUIDs sandboxes0)"
    by (simp_all add: pods0_def sample_defs)
  with th run have "\<exists>c \<in> set containers0. Container.Metadata c \<noteq> None \<and>
      ?p2 = \<lparr>ID = label_or_empty (Container.Labels c) KubernetesPodUIDLabel,
         Name = label_or_empty (Container.Labels c) KubernetesPodNameLabel,
         Namespace = label_or_empty (Container.Labels c) KubernetesPodNamespaceLabel\<rparr>"
    by blast
  moreover have "Container.Metadata container_redis \<noteq> Container.Metadata (containers0_renamed ! 1)"
    by (simp add: containers0_renamed_def sample_defs)
  ultimately show ?thesis using run containers0_renamed_same by blast
qed

end
